theory Spec2Isabelle
  imports Complex_Main "HOL-Library.Multiset" "HOL-Library.AList" "HOL-Library.Sublist"
begin

section \<open>Data model of \<^verbatim>\<open>app/chat/engine.py\<close>\<close>

subsection \<open>Python exceptions\<close>

text \<open>
  An exception is its class and its message. \<^verbatim>\<open>except C\<close> matches the class
  \<^verbatim>\<open>C\<close> and its subclasses: in Python's hierarchy \<^verbatim>\<open>json.JSONDecodeError\<close> is a
  subclass of \<^verbatim>\<open>ValueError\<close>, and \<^verbatim>\<open>FileNotFoundError\<close> one of \<^verbatim>\<open>OSError\<close>.
\<close>

datatype exn_class =
    FileNotFoundError | OSError | ValueError | JSONDecodeError | KeyError | RuntimeError

datatype exn = Exn (exn_cls: exn_class) (exn_msg: string)

definition is_ValueError :: "exn \<Rightarrow> bool" where
  "is_ValueError e = (exn_cls e = ValueError \<or> exn_cls e = JSONDecodeError)"

definition is_FileNotFoundError :: "exn \<Rightarrow> bool" where
  "is_FileNotFoundError e = (exn_cls e = FileNotFoundError)"

subsection \<open>Messages and chat history\<close>

text \<open>
  \<^verbatim>\<open>MessageRoleEnum\<close> and \<^verbatim>\<open>MessageStatusEnum\<close> are declared in \<^verbatim>\<open>app.models.db\<close>;
  the code compares a role with \<^verbatim>\<open>assistant\<close> and a status with \<^verbatim>\<open>SUCCESS\<close> only, so
  every other member is kept as an open alternative.
\<close>

datatype MessageRoleEnum = user | assistant | other_role string

datatype MessageStatusEnum = SUCCESS | other_status string

datatype MessageRole = SYSTEM | USER | ASSISTANT | FUNCTION | TOOL

record MessageSchema =
  content :: string
  role :: MessageRoleEnum
  status :: MessageStatusEnum
  created_at :: int

datatype ChatMessage = ChatMessage (chat_content: string) (chat_role: MessageRole)

text \<open>
  \<^verbatim>\<open>str.strip()\<close> removes leading and trailing whitespace; these are the characters
  up to code point 255 for which \<^verbatim>\<open>str.isspace\<close> holds.
\<close>

definition isspace :: "char \<Rightarrow> bool" where
  "isspace c = (of_char c \<in> {9, 10, 11, 12, 13, 28, 29, 30, 31, 32, 133, 160 :: nat})"

definition strip :: "string \<Rightarrow> string" where
  "strip s = rev (dropWhile isspace (rev (dropWhile isspace s)))"

text \<open>The \<^verbatim>\<open>for message in chat_messages\<close> loop, appending to \<^verbatim>\<open>chat_history\<close>.\<close>

fun append_history :: "MessageSchema list \<Rightarrow> ChatMessage list \<Rightarrow> ChatMessage list" where
  "append_history [] chat_history = chat_history"
| "append_history (message # rest) chat_history =
     append_history rest
       (chat_history @
         [ChatMessage (content message)
            (if role message = assistant then ASSISTANT else USER)])"

text \<open>\<^verbatim>\<open>sorted\<close> is stable, and so is \<^const>\<open>sort_key\<close>.\<close>

definition get_chat_history :: "MessageSchema list \<Rightarrow> ChatMessage list" where
  "get_chat_history chat_messages =
     (let chat_messages1 =
            filter (\<lambda>m. strip (content m) \<noteq> [] \<and> status m = SUCCESS) chat_messages;
          chat_messages2 = sort_key created_at chat_messages1
      in append_history chat_messages2 [])"

subsection \<open>Settings (\<^verbatim>\<open>app/core/config.py\<close>)\<close>

record Settings =
  OPENAI_API_KEY :: string
  AWS_KEY :: string
  AWS_SECRET :: string
  LOG_LEVEL :: string
  IS_PULL_REQUEST :: bool
  RENDER :: bool
  S3_BUCKET_NAME :: string
  S3_ASSET_BUCKET_NAME :: string
  MODEL_NAME :: string

definition VERBOSE :: "Settings \<Rightarrow> bool" where
  "VERBOSE st = (LOG_LEVEL st = ''DEBUG'' \<or> IS_PULL_REQUEST st \<or> \<not> RENDER st)"

definition S3_ENDPOINT_URL :: "Settings \<Rightarrow> string option" where
  "S3_ENDPOINT_URL st = (if \<not> RENDER st then Some ''http://localhost:4566'' else None)"

subsection \<open>Documents, nodes, indices, storage contexts\<close>

type_synonym location = string

text \<open>Handles of objects the code only passes on: compared by identity.\<close>

type_synonym vector_store = nat
type_synonym file_system = nat
type_synonym BaseCallbackHandler = nat

type_synonym metadata_dict = "(string \<times> string) list"

datatype DocumentMetadataKeysEnum = CLINICAL_GUIDELINE | other_metadata_key string

type_synonym datetime = int

record DocumentSchema =
  document_id :: string
  url :: string
  metadata_map :: "(DocumentMetadataKeysEnum \<times> metadata_dict) list"

record ConversationSchema =
  documents :: "DocumentSchema list"
  messages :: "MessageSchema list"

record ClinicalGuidelineMetadata =
  title :: string
  issuing_organization :: string
  publication_date :: "datetime option"

text \<open>A node as the chunker returns it (\<^verbatim>\<open>node.text\<close>, \<^verbatim>\<open>node.metadata\<close>, which may be
  \<^verbatim>\<open>None\<close>), and the \<^verbatim>\<open>Document\<close> the code builds from it.\<close>

record chunk =
  chunk_text :: string
  chunk_metadata :: "metadata_dict option"

record Document =
  node_text :: string
  node_doc_id :: string
  extra_info :: metadata_dict

datatype OpenAIEmbeddingMode = SIMILARITY_MODE | TEXT_SEARCH_MODE

datatype OpenAIEmbeddingModelType = TEXT_EMBED_ADA_002

record OpenAIEmbedding =
  mode :: OpenAIEmbeddingMode
  model_type :: OpenAIEmbeddingModelType

record OpenAI =
  model :: string
  temperature :: rat
  streaming :: bool
  api_key :: string

record ServiceContext =
  llm :: OpenAI
  embed_model :: OpenAIEmbedding
  callback_manager :: "BaseCallbackHandler list"

record VectorStoreIndex =
  index_id :: string
  index_nodes :: "Document list"
  service_context :: ServiceContext

record StorageContext =
  sc_vector_store :: vector_store
  docstore :: "Document list"
  index_store :: "(string \<times> VectorStoreIndex) list"

subsection \<open>The library and the world it acts on\<close>

text \<open>
  The code calls libraries (llama\_index, s3fs, the chunker, the vector store) whose
  sources are not part of the repository. Every such call that does I/O is a field of the
  record \<open>lib\<close>: a function on an abstract world \<open>'w\<close> that returns a result or an
  exception, and the new world. The model of the code is parameterised by it, and logs each
  of these calls in a trace, so that theorems can say which calls a run made. The two
  constants of \<^verbatim>\<open>app.chat.constants\<close> that the code reads are fields as well.
  Constructors of configuration objects are total and recorded as data.
\<close>

datatype template_part = Lit string | Field string

datatype event =
    Ev_s3_exists string
  | Ev_s3_mkdir string
  | Ev_s3_read string
  | Ev_process_document string
  | Ev_get_vector_store_singleton
  | Ev_from_defaults "location option" vector_store "file_system option"
  | Ev_persist StorageContext location
  | Ev_load_indices_from_storage StorageContext "string list"
  | Ev_add_documents "Document list"
  | Ev_from_documents "Document list"
  | Ev_set_index_id string

record 'w lib =
  timer :: "'w \<Rightarrow> real"
  utcnow :: "'w \<Rightarrow> datetime"
  strftime :: "string \<Rightarrow> datetime \<Rightarrow> string"
  S3FileSystem :: "string \<Rightarrow> string \<Rightarrow> string option \<Rightarrow> file_system"
  s3_exists :: "file_system \<Rightarrow> string \<Rightarrow> 'w \<Rightarrow> (exn + bool) \<times> 'w"
  s3_mkdir :: "file_system \<Rightarrow> string \<Rightarrow> 'w \<Rightarrow> (exn + unit) \<times> 'w"
  s3_read :: "file_system \<Rightarrow> string \<Rightarrow> 'w \<Rightarrow> (exn + string) \<times> 'w"
  process_document :: "string \<Rightarrow> string \<Rightarrow> metadata_dict \<Rightarrow> 'w \<Rightarrow> (exn + chunk list) \<times> 'w"
  get_vector_store_singleton :: "'w \<Rightarrow> (exn + vector_store) \<times> 'w"
  from_defaults ::
    "location option \<Rightarrow> vector_store \<Rightarrow> file_system option \<Rightarrow> 'w \<Rightarrow> (exn + StorageContext) \<times> 'w"
  persist :: "StorageContext \<Rightarrow> location \<Rightarrow> file_system option \<Rightarrow> 'w \<Rightarrow> (exn + unit) \<times> 'w"
  load_indices_from_storage ::
    "StorageContext \<Rightarrow> string list \<Rightarrow> ServiceContext \<Rightarrow> 'w \<Rightarrow> (exn + VectorStoreIndex list) \<times> 'w"
  add_documents :: "StorageContext \<Rightarrow> Document list \<Rightarrow> 'w \<Rightarrow> (exn + StorageContext) \<times> 'w"
  from_documents ::
    "Document list \<Rightarrow> StorageContext \<Rightarrow> ServiceContext \<Rightarrow> 'w
       \<Rightarrow> (exn + VectorStoreIndex \<times> StorageContext) \<times> 'w"
  set_index_id ::
    "VectorStoreIndex \<Rightarrow> string \<Rightarrow> StorageContext \<Rightarrow> 'w
       \<Rightarrow> (exn + VectorStoreIndex \<times> StorageContext) \<times> 'w"
  parse_obj :: "metadata_dict \<Rightarrow> exn + ClinicalGuidelineMetadata"
  build_title_for_document :: "DocumentSchema \<Rightarrow> string"
  DB_DOC_ID_KEY :: string
  CLINICAL_SYSTEM_MESSAGE :: "template_part list"

subsection \<open>The cache behind \<^verbatim>\<open>@cached(TTLCache(maxsize=10, ttl=...))\<close>\<close>

text \<open>
  Modelled from the spec: the \<^verbatim>\<open>TTLCache\<close> and the \<^verbatim>\<open>cached\<close> decorator of the
  cachetools library, whose source is not under \<^verbatim>\<open>src/\<close>. Section 4.1 of the spec:
  entries expire a fixed time-to-live after their creation, not after their last access;
  the cache holds at most \<open>maxsize\<close> entries and evicts in least-recently-used order,
  oldest first; a failed load is not cached. The list is in least-recently-used order, the
  oldest entry first; an entry is its key, its value and the time it expires.
  The size and the time-to-live are the decorator's arguments in the source:
  \<^verbatim>\<open>maxsize=10\<close> and \<^verbatim>\<open>timedelta(minutes=5).total_seconds()\<close>.
\<close>

type_synonym 'v TTLCache = "(string \<times> 'v \<times> real) list"

definition cache_maxsize :: nat where
  "cache_maxsize = 10"

definition cache_ttl :: real where
  "cache_ttl = 5 * 60"

definition cache_getitem :: "'v TTLCache \<Rightarrow> string \<Rightarrow> real \<Rightarrow> ('v \<times> 'v TTLCache) option" where
  "cache_getitem c k now =
     (case map_of c k of
        None \<Rightarrow> None
      | Some (v, expires) \<Rightarrow>
          if now < expires then Some (v, filter (\<lambda>e. fst e \<noteq> k) c @ [(k, v, expires)])
          else None)"

definition cache_setitem :: "'v TTLCache \<Rightarrow> string \<Rightarrow> 'v \<Rightarrow> real \<Rightarrow> 'v TTLCache" where
  "cache_setitem c k v now =
     (let live = filter (\<lambda>e. now < snd (snd e)) c;
          others = filter (\<lambda>e. fst e \<noteq> k) live;
          kept = drop (Suc (length others) - cache_maxsize) others
      in kept @ [(k, v, now + cache_ttl)])"

subsection \<open>Program state and control flow\<close>

record 'w pstate =
  cache :: "StorageContext TTLCache"
  trace :: "event list"
  world :: 'w

type_synonym ('a, 'w) prog = "'w pstate \<Rightarrow> (exn + 'a) \<times> 'w pstate"

definition ret :: "'a \<Rightarrow> ('a, 'w) prog" where
  "ret a s = (Inr a, s)"

definition raise :: "exn \<Rightarrow> ('a, 'w) prog" where
  "raise e s = (Inl e, s)"

definition seq :: "('a, 'w) prog \<Rightarrow> ('a \<Rightarrow> ('b, 'w) prog) \<Rightarrow> ('b, 'w) prog" where
  "seq m f s = (case m s of (Inl e, s') \<Rightarrow> (Inl e, s') | (Inr a, s') \<Rightarrow> f a s')"

text \<open>\<^verbatim>\<open>try: body except C: handler\<close>, where \<open>is_C\<close> recognises the class \<^verbatim>\<open>C\<close>.\<close>

definition try_except :: "('a, 'w) prog \<Rightarrow> (exn \<Rightarrow> bool) \<Rightarrow> ('a, 'w) prog \<Rightarrow> ('a, 'w) prog" where
  "try_except body is_C handler s =
     (case body s of
        (Inl e, s') \<Rightarrow> if is_C e then handler s' else (Inl e, s')
      | (Inr a, s') \<Rightarrow> (Inr a, s'))"

text \<open>A call of a library function: run it on the world and log the event.\<close>

definition call :: "event \<Rightarrow> ('w \<Rightarrow> (exn + 'a) \<times> 'w) \<Rightarrow> ('a, 'w) prog" where
  "call ev f s =
     (case f (world s) of (r, w') \<Rightarrow> (r, s\<lparr>world := w', trace := trace s @ [ev]\<rparr>))"

section \<open>The functions of \<^verbatim>\<open>app/chat/engine.py\<close>\<close>

subsection \<open>\<^verbatim>\<open>get_s3_fs\<close>, \<^verbatim>\<open>fetch_and_read_document\<close>\<close>

definition get_s3_fs :: "'w lib \<Rightarrow> Settings \<Rightarrow> (file_system, 'w) prog" where
  "get_s3_fs lb st =
     (let s3 = S3FileSystem lb (AWS_KEY st) (AWS_SECRET st) (S3_ENDPOINT_URL st) in
      if RENDER st then ret s3
      else seq (call (Ev_s3_exists (S3_BUCKET_NAME st)) (s3_exists lb s3 (S3_BUCKET_NAME st)))
             (\<lambda>found.
                if found then ret s3
                else seq (call (Ev_s3_mkdir (S3_BUCKET_NAME st)) (s3_mkdir lb s3 (S3_BUCKET_NAME st)))
                       (\<lambda>_. ret s3)))"

text \<open>\<^verbatim>\<open>document.url.split('/')[-1]\<close>: what follows the last slash.\<close>

definition url_key :: "string \<Rightarrow> string" where
  "url_key u = rev (takeWhile (\<lambda>c. c \<noteq> CHR ''/'') (rev u))"

definition fetch_and_read_document ::
  "'w lib \<Rightarrow> Settings \<Rightarrow> DocumentSchema \<Rightarrow> (Document list, 'w) prog" where
  "fetch_and_read_document lb st document =
     seq (get_s3_fs lb st)
       (\<lambda>s3.
          let bucket = S3_ASSET_BUCKET_NAME st;
              key = url_key (url document);
              s3_path = bucket @ ''/'' @ key
          in seq (call (Ev_s3_read s3_path) (s3_read lb s3 s3_path))
               (\<lambda>pdf.
                  case map_of (metadata_map document) CLINICAL_GUIDELINE of
                    None \<Rightarrow> raise (Exn KeyError ''CLINICAL_GUIDELINE'')
                  | Some guideline \<Rightarrow>
                      seq (call (Ev_process_document (document_id document))
                             (process_document lb pdf (document_id document) guideline))
                        (\<lambda>nodes.
                           ret (map (\<lambda>node.
                                  \<lparr>node_text = chunk_text node,
                                   node_doc_id = document_id document,
                                   extra_info =
                                     (case chunk_metadata node of None \<Rightarrow> [] | Some m \<Rightarrow> m)\<rparr>)
                                nodes))))"

subsection \<open>\<^verbatim>\<open>build_description_for_document\<close>\<close>

definition build_description_for_document :: "'w lib \<Rightarrow> DocumentSchema \<Rightarrow> exn + string" where
  "build_description_for_document lb document =
     (case map_of (metadata_map document) CLINICAL_GUIDELINE of
        Some guideline \<Rightarrow>
          (case parse_obj lb guideline of
             Inl e \<Rightarrow> Inl e
           | Inr clinical_metadata \<Rightarrow>
               Inr (''Clinical practice guidelines titled '' @ [CHR 0x27]
                    @ title clinical_metadata @ [CHR 0x27] @ '' from ''
                    @ issuing_organization clinical_metadata @ '', published ''
                    @ (case publication_date clinical_metadata of
                         Some d \<Rightarrow> strftime lb ''%Y'' d
                       | None \<Rightarrow> ''date not specified'')
                    @ ''.''))
      | None \<Rightarrow>
          Inr ''A document containing useful information that the user pre-selected to discuss with the assistant.'')"

subsection \<open>\<^verbatim>\<open>get_embedding_model\<close>, \<^verbatim>\<open>get_tool_service_context\<close>\<close>

definition get_embedding_model :: OpenAIEmbedding where
  "get_embedding_model = \<lparr>mode = SIMILARITY_MODE, model_type = TEXT_EMBED_ADA_002\<rparr>"

definition get_tool_service_context :: "Settings \<Rightarrow> BaseCallbackHandler list \<Rightarrow> ServiceContext" where
  "get_tool_service_context st callback_handlers =
     \<lparr>llm = \<lparr>model = MODEL_NAME st, temperature = 1 / 10, streaming = False,
             api_key = OPENAI_API_KEY st\<rparr>,
      embed_model = get_embedding_model,
      callback_manager = callback_handlers\<rparr>"

subsection \<open>\<^verbatim>\<open>get_storage_context\<close>\<close>

text \<open>
  The key function of the decorator is \<^verbatim>\<open>lambda *args, **kwargs: f"storage_context_{args[0]}"\<close>;
  the only call in the source passes \<^verbatim>\<open>persist_dir\<close> first and positionally. The
  decorator looks the key up; on a miss it runs the body, and stores the result when the
  body returned one.
\<close>

definition storage_context_key :: "location \<Rightarrow> string" where
  "storage_context_key persist_dir = ''storage_context_'' @ persist_dir"

definition get_storage_context ::
  "'w lib \<Rightarrow> location \<Rightarrow> vector_store \<Rightarrow> file_system option \<Rightarrow> (StorageContext, 'w) prog" where
  "get_storage_context lb persist_dir vstore fs s =
     (let k = storage_context_key persist_dir in
      case cache_getitem (cache s) k (timer lb (world s)) of
        Some (v, c') \<Rightarrow> (Inr v, s\<lparr>cache := c'\<rparr>)
      | None \<Rightarrow>
          (case call (Ev_from_defaults (Some persist_dir) vstore fs)
                  (from_defaults lb (Some persist_dir) vstore fs) s of
             (Inl e, s') \<Rightarrow> (Inl e, s')
           | (Inr v, s') \<Rightarrow>
               (Inr v, s'\<lparr>cache := cache_setitem (cache s') k v (timer lb (world s'))\<rparr>)))"

subsection \<open>\<^verbatim>\<open>build_doc_id_to_index_map\<close>\<close>

text \<open>A Python \<^verbatim>\<open>dict\<close> as an association list in insertion order; \<^verbatim>\<open>dict(pairs)\<close>
  lets a later pair overwrite the value of an earlier one with the same key.\<close>

definition dict_of :: "('k \<times> 'v) list \<Rightarrow> ('k \<times> 'v) list" where
  "dict_of pairs = foldl (\<lambda>d kv. AList.update (fst kv) (snd kv) d) [] pairs"

text \<open>Lines 275 to 281: the storage context, the cached one or a new one.\<close>

definition obtain_storage_context ::
  "'w lib \<Rightarrow> location \<Rightarrow> vector_store \<Rightarrow> file_system option \<Rightarrow> (StorageContext, 'w) prog" where
  "obtain_storage_context lb persist_dir vstore fs =
     try_except (get_storage_context lb persist_dir vstore fs) is_FileNotFoundError
       (seq (call (Ev_from_defaults None vstore fs) (from_defaults lb None vstore fs))
          (\<lambda>storage_context.
             seq (call (Ev_persist storage_context persist_dir) (persist lb storage_context persist_dir fs))
               (\<lambda>_. ret storage_context)))"

text \<open>Lines 275 to 291: the body of the outer \<^verbatim>\<open>try\<close>.\<close>

definition load_existing ::
  "'w lib \<Rightarrow> ServiceContext \<Rightarrow> DocumentSchema list \<Rightarrow> location \<Rightarrow> vector_store
     \<Rightarrow> file_system option \<Rightarrow> ((string \<times> VectorStoreIndex) list, 'w) prog" where
  "load_existing lb svc docs persist_dir vstore fs =
     seq (obtain_storage_context lb persist_dir vstore fs)
       (\<lambda>storage_context.
          let index_ids = map document_id docs in
          seq (call (Ev_load_indices_from_storage storage_context index_ids)
                 (load_indices_from_storage lb storage_context index_ids svc))
            (\<lambda>indices. ret (dict_of (zip index_ids indices))))"

text \<open>Lines 306 to 328: one round of the loop over the documents. The storage context is
  one object that every round changes; here each round returns it.\<close>

definition rebuild_document ::
  "'w lib \<Rightarrow> Settings \<Rightarrow> ServiceContext \<Rightarrow> location \<Rightarrow> file_system option \<Rightarrow> DocumentSchema
     \<Rightarrow> StorageContext \<Rightarrow> (VectorStoreIndex \<times> StorageContext, 'w) prog" where
  "rebuild_document lb st svc persist_dir fs doc storage_context =
     seq (fetch_and_read_document lb st doc)
       (\<lambda>fetched.
          let llama_index_docs =
                map (\<lambda>node. node\<lparr>extra_info :=
                        AList.update ''doc_id'' (document_id doc) (extra_info node)\<rparr>) fetched
          in seq (call (Ev_add_documents llama_index_docs)
                    (add_documents lb storage_context llama_index_docs))
               (\<lambda>sc1.
                  seq (call (Ev_from_documents llama_index_docs)
                         (from_documents lb llama_index_docs sc1 svc))
                    (\<lambda>built.
                       seq (call (Ev_set_index_id (document_id doc))
                              (set_index_id lb (fst built) (document_id doc) (snd built)))
                         (\<lambda>named.
                            seq (call (Ev_persist (snd named) persist_dir)
                                   (persist lb (snd named) persist_dir fs))
                              (\<lambda>_. ret named)))))"

fun rebuild_loop ::
  "'w lib \<Rightarrow> Settings \<Rightarrow> ServiceContext \<Rightarrow> location \<Rightarrow> file_system option \<Rightarrow> DocumentSchema list
     \<Rightarrow> StorageContext \<Rightarrow> (string \<times> VectorStoreIndex) list
     \<Rightarrow> ((string \<times> VectorStoreIndex) list, 'w) prog" where
  "rebuild_loop lb st svc persist_dir fs [] storage_context doc_id_to_index s =
     (Inr doc_id_to_index, s)"
| "rebuild_loop lb st svc persist_dir fs (doc # docs) storage_context doc_id_to_index s =
     (case rebuild_document lb st svc persist_dir fs doc storage_context s of
        (Inl e, s') \<Rightarrow> (Inl e, s')
      | (Inr named, s') \<Rightarrow>
          rebuild_loop lb st svc persist_dir fs docs (snd named)
            (AList.update (document_id doc) (fst named) doc_id_to_index) s')"

text \<open>Lines 298 to 328: the handler of \<^verbatim>\<open>except ValueError\<close>.\<close>

definition rebuild_all ::
  "'w lib \<Rightarrow> Settings \<Rightarrow> ServiceContext \<Rightarrow> DocumentSchema list \<Rightarrow> location \<Rightarrow> vector_store
     \<Rightarrow> file_system option \<Rightarrow> ((string \<times> VectorStoreIndex) list, 'w) prog" where
  "rebuild_all lb st svc docs persist_dir vstore fs =
     seq (call (Ev_from_defaults (Some persist_dir) vstore fs)
            (from_defaults lb (Some persist_dir) vstore fs))
       (\<lambda>storage_context. rebuild_loop lb st svc persist_dir fs docs storage_context [])"

definition build_doc_id_to_index_map ::
  "'w lib \<Rightarrow> Settings \<Rightarrow> ServiceContext \<Rightarrow> DocumentSchema list \<Rightarrow> file_system option
     \<Rightarrow> ((string \<times> VectorStoreIndex) list, 'w) prog" where
  "build_doc_id_to_index_map lb st svc docs fs =
     (let persist_dir = S3_BUCKET_NAME st in
      seq (call Ev_get_vector_store_singleton (get_vector_store_singleton lb))
        (\<lambda>vstore.
           try_except (load_existing lb svc docs persist_dir vstore fs) is_ValueError
             (rebuild_all lb st svc docs persist_dir vstore fs)))"

subsection \<open>\<^verbatim>\<open>index_to_query_engine\<close>\<close>

datatype ExactMatchFilter = ExactMatchFilter (filter_key: string) (filter_value: string)

text \<open>\<^verbatim>\<open>get_clinical_response_synth\<close> is defined in \<^verbatim>\<open>app.chat.qa_response_synth\<close>;
  its result is kept as the call and its arguments.\<close>

datatype ResponseSynthesizer = get_clinical_response_synth ServiceContext "DocumentSchema list"

datatype MetadataFilters = MetadataFilters (filters: "ExactMatchFilter list")

text \<open>The retriever as the source constructs it: \<^verbatim>\<open>index\<close>, \<^verbatim>\<open>similarity_top_k\<close> and the
  dictionary \<^verbatim>\<open>vector_store_kwargs\<close>. The source passes no \<^verbatim>\<open>filters\<close> argument.\<close>

record VectorIndexRetriever =
  retriever_index :: VectorStoreIndex
  similarity_top_k :: nat
  vector_store_kwargs :: "(string \<times> MetadataFilters) list"

record RetrieverQueryEngine =
  retriever :: VectorIndexRetriever
  response_synthesizer :: ResponseSynthesizer
  engine_callback_manager :: "BaseCallbackHandler list"

definition index_to_query_engine ::
  "'w lib \<Rightarrow> string \<Rightarrow> VectorStoreIndex \<Rightarrow> DocumentSchema list \<Rightarrow> RetrieverQueryEngine" where
  "index_to_query_engine lb doc_id index docs =
     \<lparr>retriever =
        \<lparr>retriever_index = index,
         similarity_top_k = 3,
         vector_store_kwargs =
           [(''filter'', MetadataFilters [ExactMatchFilter (DB_DOC_ID_KEY lb) doc_id])]\<rparr>,
      response_synthesizer =
        get_clinical_response_synth (service_context index)
          (filter (\<lambda>doc. document_id doc = doc_id) docs),
      engine_callback_manager = callback_manager (service_context index)\<rparr>"




subsection \<open>\<^verbatim>\<open>get_chat_engine\<close>\<close>

record ToolMetadata =
  tool_name :: string
  tool_description :: string

record 'qe QueryEngineTool =
  query_engine :: 'qe
  metadata :: ToolMetadata

record SubQuestionQueryEngine =
  query_engine_tools :: "RetrieverQueryEngine QueryEngineTool list"
  router_service_context :: ServiceContext
  router_response_synthesizer :: ResponseSynthesizer
  router_verbose :: bool
  use_async :: bool

record OpenAIAgent =
  tools :: "SubQuestionQueryEngine QueryEngineTool list"
  agent_llm :: OpenAI
  chat_history :: "ChatMessage list"
  agent_verbose :: bool
  system_prompt :: string
  agent_callback_manager :: "BaseCallbackHandler list"
  max_function_calls :: nat

definition OPENAI_CHAT_LLM_NAME :: string where
  "OPENAI_CHAT_LLM_NAME = ''gpt-4-1106-preview''"

text \<open>\<^verbatim>\<open>sep.join(xs)\<close>\<close>

fun join :: "string \<Rightarrow> string list \<Rightarrow> string" where
  "join sep [] = []"
| "join sep [x] = x"
| "join sep (x # y # ys) = x @ sep @ join sep (y # ys)"

text \<open>\<^verbatim>\<open>template.format(**kwargs)\<close> on a parsed template: a field that no keyword
  argument names raises \<^verbatim>\<open>KeyError\<close>.\<close>

fun format_template :: "template_part list \<Rightarrow> (string \<times> string) list \<Rightarrow> exn + string" where
  "format_template [] kwargs = Inr []"
| "format_template (Lit t # ps) kwargs =
     (case format_template ps kwargs of Inl e \<Rightarrow> Inl e | Inr r \<Rightarrow> Inr (t @ r))"
| "format_template (Field f # ps) kwargs =
     (case map_of kwargs f of
        None \<Rightarrow> Inl (Exn KeyError f)
      | Some v \<Rightarrow> (case format_template ps kwargs of Inl e \<Rightarrow> Inl e | Inr r \<Rightarrow> Inr (v @ r)))"

text \<open>The list comprehension of lines 437 to 446, over \<^verbatim>\<open>doc_id_to_index.items()\<close>.\<close>

fun vector_query_engine_tools ::
  "'w lib \<Rightarrow> DocumentSchema list \<Rightarrow> (string \<times> DocumentSchema) list \<Rightarrow> (string \<times> VectorStoreIndex) list
     \<Rightarrow> exn + RetrieverQueryEngine QueryEngineTool list" where
  "vector_query_engine_tools lb docs id_to_doc [] = Inr []"
| "vector_query_engine_tools lb docs id_to_doc ((doc_id, index) # items) =
     (case map_of id_to_doc doc_id of
        None \<Rightarrow> Inl (Exn KeyError doc_id)
      | Some doc \<Rightarrow>
          (case build_description_for_document lb doc of
             Inl e \<Rightarrow> Inl e
           | Inr d \<Rightarrow>
               (case vector_query_engine_tools lb docs id_to_doc items of
                  Inl e \<Rightarrow> Inl e
                | Inr ts \<Rightarrow>
                    Inr (\<lparr>query_engine = index_to_query_engine lb doc_id index docs,
                          metadata = \<lparr>tool_name = doc_id, tool_description = d\<rparr>\<rparr> # ts))))"

definition clinical_tool_description :: string where
  "clinical_tool_description =
     strip ([CHR 0x0A]
       @ ''A query engine specialized for analyzing clinical practice guidelines. Use this for:''
       @ [CHR 0x0A] @ ''- Understanding clinical recommendations and their evidence levels''
       @ [CHR 0x0A] @ ''- Finding specific treatment protocols and procedures''
       @ [CHR 0x0A] @ ''- Identifying patient care guidelines and best practices''
       @ [CHR 0x0A] @ ''- Analyzing clinical outcomes and quality measures''
       @ [CHR 0x0A])"

definition doc_titles_of :: "'w lib \<Rightarrow> DocumentSchema list \<Rightarrow> string" where
  "doc_titles_of lb docs =
     (if docs \<noteq> [] then join [CHR 0x0A] (map (\<lambda>doc. ''- '' @ build_title_for_document lb doc) docs)
      else ''No clinical guidelines selected.'')"

definition get_chat_engine ::
  "'w lib \<Rightarrow> Settings \<Rightarrow> BaseCallbackHandler \<Rightarrow> ConversationSchema \<Rightarrow> (OpenAIAgent, 'w) prog" where
  "get_chat_engine lb st callback_handler conversation =
     (let svc = get_tool_service_context st [callback_handler] in
      seq (get_s3_fs lb st)
        (\<lambda>s3_fs.
           seq (build_doc_id_to_index_map lb st svc (documents conversation) (Some s3_fs))
             (\<lambda>doc_id_to_index.
                let id_to_doc = dict_of (map (\<lambda>doc. (document_id doc, doc)) (documents conversation)) in
                case vector_query_engine_tools lb (documents conversation) id_to_doc doc_id_to_index of
                  Inl e \<Rightarrow> raise e
                | Inr router_tools \<Rightarrow>
                    (\<lambda>s.
                       let response_synth = get_clinical_response_synth svc (documents conversation);
                           clinical_query_engine =
                             \<lparr>query_engine_tools = router_tools,
                              router_service_context = svc,
                              router_response_synthesizer = response_synth,
                              router_verbose = VERBOSE st,
                              use_async = True\<rparr>;
                           top_level_tools =
                             [\<lparr>query_engine = clinical_query_engine,
                               metadata = \<lparr>tool_name = ''clinical_guidelines'',
                                           tool_description = clinical_tool_description\<rparr>\<rparr>];
                           chat_llm = \<lparr>model = OPENAI_CHAT_LLM_NAME, temperature = 0,
                                       streaming = True, api_key = OPENAI_API_KEY st\<rparr>;
                           history = get_chat_history (messages conversation);
                           doc_titles = doc_titles_of lb (documents conversation);
                           curr_date = strftime lb ''%Y-%m-%d'' (utcnow lb (world s))
                       in case format_template (CLINICAL_SYSTEM_MESSAGE lb)
                                 [(''doc_titles'', doc_titles), (''curr_date'', curr_date)] of
                            Inl e \<Rightarrow> (Inl e, s)
                          | Inr prompt \<Rightarrow>
                              (Inr \<lparr>tools = top_level_tools,
                                    agent_llm = chat_llm,
                                    chat_history = history,
                                    agent_verbose = VERBOSE st,
                                    system_prompt = prompt,
                                    agent_callback_manager = callback_manager svc,
                                    max_function_calls = 3\<rparr>, s)))))"

subsection \<open>The agent's turn\<close>

text \<open>
  Modelled from the spec: the turn loop of the agent that \<^verbatim>\<open>OpenAIAgent.from_tools\<close>
  returns (llama\_index; its source is not under \<^verbatim>\<open>src/\<close>). Section 4.5 of the spec: a
  turn goes from \<open>idle\<close> to \<open>awaiting_model\<close>; when the reasoning step selects the tool
  with a sub-query the agent goes to \<open>tool_dispatch\<close> and, once the tool result returns,
  back to \<open>awaiting_model\<close>; at most \<open>max_function_calls\<close> tools are invoked in a turn,
  and a further request forces the transition to \<open>responding\<close> with the tool results that
  are available; after \<open>responding\<close> the agent is \<open>idle\<close>. The reasoning step \<open>decide\<close>,
  the tool \<open>run_tool\<close> and the assembly of a response from tool results are parameters.
  The budget is the field of the agent that \<^const>\<open>get_chat_engine\<close> sets.
\<close>

datatype agent_state = idle | awaiting_model | tool_dispatch | responding

datatype decision = CallTool string | Respond string

record turn =
  tool_results :: "string list"
  response :: string
  visited :: "agent_state list"

function turn_loop ::
  "nat \<Rightarrow> (string list \<Rightarrow> decision) \<Rightarrow> (string \<Rightarrow> string) \<Rightarrow> (string list \<Rightarrow> string)
     \<Rightarrow> string list \<Rightarrow> agent_state list \<Rightarrow> turn" where
  "turn_loop budget decide run_tool assemble results seen =
     (case decide results of
        Respond answer \<Rightarrow>
          \<lparr>tool_results = results, response = answer, visited = seen @ [responding, idle]\<rparr>
      | CallTool sub_query \<Rightarrow>
          if length results < budget
          then turn_loop budget decide run_tool assemble (results @ [run_tool sub_query])
                 (seen @ [tool_dispatch, awaiting_model])
          else \<lparr>tool_results = results, response = assemble results,
                visited = seen @ [responding, idle]\<rparr>)"
  by pat_completeness auto
termination
  by (relation "measure (\<lambda>(budget, decide, run_tool, assemble, results, seen). budget - length results)")
     auto

definition run_turn ::
  "OpenAIAgent \<Rightarrow> (ChatMessage list \<Rightarrow> string \<Rightarrow> string \<Rightarrow> string list \<Rightarrow> decision)
     \<Rightarrow> (string \<Rightarrow> string) \<Rightarrow> (string list \<Rightarrow> string) \<Rightarrow> string \<Rightarrow> turn" where
  "run_turn agent reason run_tool assemble user_message =
     turn_loop (max_function_calls agent)
       (reason (chat_history agent) (system_prompt agent) user_message)
       run_tool assemble [] [idle, awaiting_model]"

subsection \<open>Events of a rebuild\<close>

text \<open>Running the chunker on a document, and building a vector index from documents (which
  embeds every node), are the two costly calls of the per-document build path.\<close>

fun chunking_event :: "event \<Rightarrow> bool" where
  "chunking_event (Ev_process_document _) = True"
| "chunking_event _ = False"

fun embedding_event :: "event \<Rightarrow> bool" where
  "embedding_event (Ev_from_documents _) = True"
| "embedding_event _ = False"

text \<open>A sequence of lookups in the cache, each at its own time.\<close>

fun cache_reads :: "'v TTLCache \<Rightarrow> (string \<times> real) list \<Rightarrow> 'v TTLCache" where
  "cache_reads c [] = c"
| "cache_reads c ((k, now) # rs) =
     cache_reads (case cache_getitem c k now of Some (v, c') \<Rightarrow> c' | None \<Rightarrow> c) rs"

section \<open>A small world to run the model in\<close>

text \<open>
  Modelled from the spec: the storage behind the library calls, as an in-memory library for
  running the model on concrete inputs. Sections 3, 4.2 and 6 of the spec: a location holds
  at most one persisted storage context; a storage context loaded from a location is the
  deserialized copy of what is persisted there; loading from a location without one is a
  not-found failure; the bulk load of indices by id fails when an id is missing from the
  storage context; a build registers the nodes and adds the index under the document id.
  The chunker returns one node per document.
\<close>

record demo_world =
  clock :: real
  today :: datetime
  buckets :: "string list"
  assets :: "(string \<times> string) list"
  persisted :: "(location \<times> StorageContext) list"

fun lookup_indices :: "(string \<times> VectorStoreIndex) list \<Rightarrow> string list \<Rightarrow> exn + VectorStoreIndex list" where
  "lookup_indices store [] = Inr []"
| "lookup_indices store (i # ids) =
     (case map_of store i of
        None \<Rightarrow> Inl (Exn ValueError (''Failed to load index with ID '' @ i))
      | Some ix \<Rightarrow>
          (case lookup_indices store ids of Inl e \<Rightarrow> Inl e | Inr ixs \<Rightarrow> Inr (ix # ixs)))"

definition demo_from_defaults ::
  "location option \<Rightarrow> vector_store \<Rightarrow> file_system option \<Rightarrow> demo_world
     \<Rightarrow> (exn + StorageContext) \<times> demo_world" where
  "demo_from_defaults persist_dir vstore fs w =
     (case persist_dir of
        None \<Rightarrow> (Inr \<lparr>sc_vector_store = vstore, docstore = [], index_store = []\<rparr>, w)
      | Some d \<Rightarrow>
          (case map_of (persisted w) d of
             None \<Rightarrow> (Inl (Exn FileNotFoundError d), w)
           | Some sc \<Rightarrow> (Inr (sc\<lparr>sc_vector_store := vstore\<rparr>), w)))"

definition demo_from_documents ::
  "Document list \<Rightarrow> StorageContext \<Rightarrow> ServiceContext \<Rightarrow> demo_world
     \<Rightarrow> (exn + VectorStoreIndex \<times> StorageContext) \<times> demo_world" where
  "demo_from_documents docs sc svc w =
     (let ix = \<lparr>index_id = ''new'', index_nodes = docs, service_context = svc\<rparr>
      in (Inr (ix, sc\<lparr>index_store := AList.update ''new'' ix (index_store sc)\<rparr>), w))"

definition demo_set_index_id ::
  "VectorStoreIndex \<Rightarrow> string \<Rightarrow> StorageContext \<Rightarrow> demo_world
     \<Rightarrow> (exn + VectorStoreIndex \<times> StorageContext) \<times> demo_world" where
  "demo_set_index_id ix new_id sc w =
     (let ix' = ix\<lparr>index_id := new_id\<rparr>
      in (Inr (ix', sc\<lparr>index_store :=
                         AList.update new_id ix' (AList.delete (index_id ix) (index_store sc))\<rparr>), w))"

definition demo_parse_obj :: "metadata_dict \<Rightarrow> exn + ClinicalGuidelineMetadata" where
  "demo_parse_obj m =
     (case map_of m ''title'' of
        None \<Rightarrow> Inl (Exn ValueError ''title: field required'')
      | Some t \<Rightarrow>
          (case map_of m ''issuing_organization'' of
             None \<Rightarrow> Inl (Exn ValueError ''issuing_organization: field required'')
           | Some org \<Rightarrow>
               Inr \<lparr>title = t, issuing_organization = org, publication_date = None\<rparr>))"

definition demo_lib :: "demo_world lib" where
  "demo_lib =
     \<lparr>timer = clock,
      utcnow = today,
      strftime = (\<lambda>fmt d. fmt),
      S3FileSystem = (\<lambda>key secret endpoint. 0),
      s3_exists = (\<lambda>fs b w. (Inr (b \<in> set (buckets w)), w)),
      s3_mkdir = (\<lambda>fs b w. (Inr (), w\<lparr>buckets := b # buckets w\<rparr>)),
      s3_read = (\<lambda>fs path w.
         case map_of (assets w) path of
           None \<Rightarrow> (Inl (Exn FileNotFoundError path), w)
         | Some pdf \<Rightarrow> (Inr pdf, w)),
      process_document = (\<lambda>pdf db_id guideline w.
         (Inr [\<lparr>chunk_text = pdf, chunk_metadata = Some [(''db_document_id'', db_id)]\<rparr>], w)),
      get_vector_store_singleton = (\<lambda>w. (Inr 7, w)),
      from_defaults = demo_from_defaults,
      persist = (\<lambda>sc d fs w. (Inr (), w\<lparr>persisted := AList.update d sc (persisted w)\<rparr>)),
      load_indices_from_storage = (\<lambda>sc ids svc w. (lookup_indices (index_store sc) ids, w)),
      add_documents = (\<lambda>sc docs w. (Inr (sc\<lparr>docstore := docstore sc @ docs\<rparr>), w)),
      from_documents = demo_from_documents,
      set_index_id = demo_set_index_id,
      parse_obj = demo_parse_obj,
      build_title_for_document = document_id,
      DB_DOC_ID_KEY = ''db_document_id'',
      CLINICAL_SYSTEM_MESSAGE =
        [Lit ''Guidelines: '', Field ''doc_titles'', Lit '' Date: '', Field ''curr_date'']\<rparr>"

definition demo_settings :: Settings where
  "demo_settings =
     \<lparr>OPENAI_API_KEY = ''sk'', AWS_KEY = ''key'', AWS_SECRET = ''secret'', LOG_LEVEL = ''INFO'',
      IS_PULL_REQUEST = False, RENDER = True, S3_BUCKET_NAME = ''bucket'',
      S3_ASSET_BUCKET_NAME = ''assets'', MODEL_NAME = ''gpt-4o''\<rparr>"

definition demo_svc :: ServiceContext where
  "demo_svc = get_tool_service_context demo_settings [1]"

definition doc_A :: DocumentSchema where
  "doc_A =
     \<lparr>document_id = ''A'', url = ''http://cdn/assets/a.pdf'',
      metadata_map = [(CLINICAL_GUIDELINE,
         [(''title'', ''Guideline X''), (''issuing_organization'', ''Org'')])]\<rparr>"

definition doc_B :: DocumentSchema where
  "doc_B =
     \<lparr>document_id = ''B'', url = ''http://cdn/assets/b.pdf'',
      metadata_map = [(CLINICAL_GUIDELINE,
         [(''title'', ''Guideline Y''), (''issuing_organization'', ''Org'')])]\<rparr>"

definition index_A :: VectorStoreIndex where
  "index_A =
     \<lparr>index_id = ''A'',
      index_nodes = [\<lparr>node_text = ''text of a'', node_doc_id = ''A'',
                      extra_info = [(''db_document_id'', ''A''), (''doc_id'', ''A'')]\<rparr>],
      service_context = demo_svc\<rparr>"

text \<open>A storage context that holds the index of document A and no other.\<close>

definition context_A :: StorageContext where
  "context_A =
     \<lparr>sc_vector_store = 7, docstore = index_nodes index_A, index_store = [(''A'', index_A)]\<rparr>"

definition demo_assets :: "(string \<times> string) list" where
  "demo_assets = [(''assets/a.pdf'', ''text of a''), (''assets/b.pdf'', ''text of b'')]"

text \<open>Nothing persisted yet; and the index of A persisted at the location.\<close>

definition world_empty :: demo_world where
  "world_empty = \<lparr>clock = 0, today = 0, buckets = [], assets = demo_assets, persisted = []\<rparr>"

definition world_A :: demo_world where
  "world_A =
     \<lparr>clock = 0, today = 0, buckets = [], assets = demo_assets,
      persisted = [(''bucket'', context_A)]\<rparr>"

definition start :: "demo_world \<Rightarrow> demo_world pstate" where
  "start w = \<lparr>cache = [], trace = [], world = w\<rparr>"

text \<open>The same library, except that the bulk load of indices fails on malformed stored
  data: \<^verbatim>\<open>json.JSONDecodeError\<close>, a subclass of \<^verbatim>\<open>ValueError\<close>.\<close>

definition corrupt_lib :: "demo_world lib" where
  "corrupt_lib =
     demo_lib\<lparr>load_indices_from_storage :=
       (\<lambda>sc ids svc w. (Inl (Exn JSONDecodeError ''Expecting value: line 1 column 1 (char 0)''), w))\<rparr>"



text \<open>The same library, except that the bulk load of indices fails with a transient
  I/O error.\<close>

definition offline_lib :: "demo_world lib" where
  "offline_lib =
     demo_lib\<lparr>load_indices_from_storage :=
       (\<lambda>sc ids svc w. (Inl (Exn OSError ''connection reset by peer''), w))\<rparr>"

text \<open>The state that a first build for document B leaves, in the world where only the index
  of A is persisted.\<close>

definition after_first_build :: "demo_world pstate" where
  "after_first_build =
     snd (build_doc_id_to_index_map demo_lib demo_settings demo_svc [doc_B] None (start world_A))"

subsection \<open>Which events a run adds to the trace\<close>

text \<open>A run only appends events to the trace, and every event it appends satisfies \<open>P\<close>.\<close>

definition trace_grows_by :: "(event \<Rightarrow> bool) \<Rightarrow> ('a, 'w) prog \<Rightarrow> bool" where
  "trace_grows_by P m = (\<forall>s. \<exists>evs. trace (snd (m s)) = trace s @ evs \<and> list_all P evs)"

text \<open>An event that is neither a chunker run nor an index build.\<close>

definition quiet :: "event \<Rightarrow> bool" where
  "quiet ev = (\<not> chunking_event ev \<and> \<not> embedding_event ev)"

section \<open>Chat history\<close>

lemma append_history_map:
  "append_history ms acc =
     acc @ map (\<lambda>m. ChatMessage (content m) (if role m = assistant then ASSISTANT else USER)) ms"
  by (induction ms arbitrary: acc) auto

lemma get_chat_history_eq:
  "get_chat_history msgs =
     map (\<lambda>m. ChatMessage (content m) (if role m = assistant then ASSISTANT else USER))
       (sort_key created_at (filter (\<lambda>m. strip (content m) \<noteq> [] \<and> status m = SUCCESS) msgs))"
  by (simp add: get_chat_history_def append_history_map)

lemma get_chat_history_example:
  "get_chat_history
     [\<lparr>content = ''third'', role = user, status = SUCCESS, created_at = 30\<rparr>,
      \<lparr>content = ''  '', role = user, status = SUCCESS, created_at = 5\<rparr>,
      \<lparr>content = ''failed'', role = assistant, status = other_status ''ERROR'', created_at = 10\<rparr>,
      \<lparr>content = ''second'', role = other_role ''system'', status = SUCCESS, created_at = 20\<rparr>,
      \<lparr>content = ''first'', role = assistant, status = SUCCESS, created_at = 10\<rparr>]
   = [ChatMessage ''first'' ASSISTANT, ChatMessage ''second'' USER, ChatMessage ''third'' USER]"
  by (simp add: get_chat_history_def strip_def isspace_def)

text \<open>
  Claim C9. For every list of messages, the chat history built by \<^const>\<open>get_chat_history\<close>
  consists of exactly the input messages whose status is success and whose content is not
  empty after stripping whitespace (\<open>kept\<close> has the same elements, with multiplicity), in
  ascending order of creation time, messages of equal creation time in their input order;
  every other message is left out.
\<close>

theorem get_chat_history_membership_order:
  "\<exists>kept. mset kept = {#m \<in># mset msgs. status m = SUCCESS \<and> strip (content m) \<noteq> []#}
     \<and> sorted (map created_at kept)
     \<and> (\<forall>t. filter (\<lambda>m. created_at m = t) kept
              = filter (\<lambda>m. created_at m = t)
                  (filter (\<lambda>m. status m = SUCCESS \<and> strip (content m) \<noteq> []) msgs))
     \<and> map chat_content (get_chat_history msgs) = map content kept"
proof -
  let ?keep = "\<lambda>m. strip (content m) \<noteq> [] \<and> status m = SUCCESS"
  let ?kept = "sort_key created_at (filter ?keep msgs)"
  have a: "mset ?kept = {#m \<in># mset msgs. status m = SUCCESS \<and> strip (content m) \<noteq> []#}"
    by (simp add: conj_commute)
  have b: "sorted (map created_at ?kept)" by simp
  have c: "\<forall>t. filter (\<lambda>m. created_at m = t) ?kept
              = filter (\<lambda>m. created_at m = t)
                  (filter (\<lambda>m. status m = SUCCESS \<and> strip (content m) \<noteq> []) msgs)"
    by (simp add: sort_key_stable conj_commute)
  have d: "map chat_content (get_chat_history msgs) = map content ?kept"
    by (simp add: get_chat_history_eq comp_def)
  from a b c d show ?thesis by blast
qed

text \<open>
  Claim C10. The history is, message by message, the list \<open>kept\<close> of the retained
  messages in their order (the messages with success status and content that is not empty
  after stripping, sorted by creation time, messages of equal creation time in input
  order): the entry at each position has the content of the message at that position, and
  the assistant role when the stored role of that message is assistant, the user role for
  every other stored role. No role other than user and assistant occurs in the history.
\<close>

theorem get_chat_history_roles:
  "\<exists>kept. mset kept = {#m \<in># mset msgs. status m = SUCCESS \<and> strip (content m) \<noteq> []#}
     \<and> sorted (map created_at kept)
     \<and> (\<forall>t. filter (\<lambda>m. created_at m = t) kept
              = filter (\<lambda>m. created_at m = t)
                  (filter (\<lambda>m. status m = SUCCESS \<and> strip (content m) \<noteq> []) msgs))
     \<and> get_chat_history msgs
         = map (\<lambda>m. ChatMessage (content m) (if role m = assistant then ASSISTANT else USER)) kept
     \<and> set (map chat_role (get_chat_history msgs)) \<subseteq> {USER, ASSISTANT}"
proof -
  let ?keep = "\<lambda>m. strip (content m) \<noteq> [] \<and> status m = SUCCESS"
  let ?kept = "sort_key created_at (filter ?keep msgs)"
  have a: "mset ?kept = {#m \<in># mset msgs. status m = SUCCESS \<and> strip (content m) \<noteq> []#}"
    by (simp add: conj_commute)
  have b: "sorted (map created_at ?kept)" by simp
  have c: "\<forall>t. filter (\<lambda>m. created_at m = t) ?kept
              = filter (\<lambda>m. created_at m = t)
                  (filter (\<lambda>m. status m = SUCCESS \<and> strip (content m) \<noteq> []) msgs)"
    by (simp add: sort_key_stable conj_commute)
  have d: "get_chat_history msgs
         = map (\<lambda>m. ChatMessage (content m) (if role m = assistant then ASSISTANT else USER)) ?kept"
    by (rule get_chat_history_eq)
  have e: "set (map chat_role (get_chat_history msgs)) \<subseteq> {USER, ASSISTANT}"
    unfolding d by auto
  from a b c d e show ?thesis by blast
qed

section \<open>The query engine of one document\<close>







section \<open>The storage-context cache\<close>

lemma map_of_move_to_end:
  assumes "map_of c k = Some ve"
  shows "map_of (filter (\<lambda>e. fst e \<noteq> k) c @ [(k, ve)]) = map_of c"
proof
  fix x
  have f: "map_of (filter (\<lambda>e. fst e \<noteq> k) c) x = (if x = k then None else map_of c x)"
    by (induction c) auto
  show "map_of (filter (\<lambda>e. fst e \<noteq> k) c @ [(k, ve)]) x = map_of c x"
    using assms by (simp add: map_add_def f split: option.splits)
qed

lemma map_of_filter_key_None:
  "map_of (filter (\<lambda>e. fst e \<noteq> k) c) k = None"
  by (induction c) auto

lemma cache_getitem_hit:
  assumes "map_of c k = Some (v, expires)" "now < expires"
  shows "cache_getitem c k now = Some (v, filter (\<lambda>e. fst e \<noteq> k) c @ [(k, v, expires)])"
  using assms by (simp add: cache_getitem_def)

lemma cache_getitem_expired:
  assumes "map_of c k = Some (v, expires)" "expires \<le> now"
  shows "cache_getitem c k now = None"
  using assms by (simp add: cache_getitem_def)

lemma cache_getitem_Some:
  assumes "cache_getitem c k now = Some (v, c')"
  shows "\<exists>expires. map_of c k = Some (v, expires) \<and> now < expires \<and> map_of c' = map_of c"
proof -
  from assms obtain expires where m: "map_of c k = Some (v, expires)" and t: "now < expires"
    and c': "c' = filter (\<lambda>e. fst e \<noteq> k) c @ [(k, v, expires)]"
    by (auto simp: cache_getitem_def split: option.splits if_splits)
  from map_of_move_to_end[OF m] c' have "map_of c' = map_of c" by simp
  with m t show ?thesis by blast
qed

lemma cache_setitem_lookup:
  "map_of (cache_setitem c k v now) k = Some (v, now + cache_ttl)"
proof -
  let ?others = "filter (\<lambda>e. fst e \<noteq> k) (filter (\<lambda>e. now < snd (snd e)) c)"
  let ?kept = "drop (Suc (length ?others) - cache_maxsize) ?others"
  have "k \<notin> fst ` set ?others" by auto
  moreover have "set ?kept \<subseteq> set ?others" by (rule set_drop_subset)
  ultimately have "k \<notin> fst ` set ?kept" by blast
  then have "map_of ?kept k = None" by (simp add: map_of_eq_None_iff)
  then show ?thesis
    by (simp add: cache_setitem_def Let_def map_add_def)
qed

lemma cache_reads_map_of:
  "map_of (cache_reads c rs) = map_of c"
proof (induction rs arbitrary: c)
  case Nil
  show ?case by simp
next
  case (Cons r rs)
  obtain k now where r: "r = (k, now)" by (cases r)
  show ?case
  proof (cases "cache_getitem c k now")
    case None
    with Cons r show ?thesis by simp
  next
    case (Some vc)
    obtain v c' where vc: "vc = (v, c')" by (cases vc)
    from cache_getitem_Some[of c k now v c'] Some vc have "map_of c' = map_of c" by auto
    with Cons[of c'] Some vc r show ?thesis by simp
  qed
qed

lemma get_storage_context_hit:
  assumes "map_of (cache s) (storage_context_key dir) = Some (sc, expires)"
      and "timer lb (world s) < expires"
  shows "get_storage_context lb dir vs fs s
         = (Inr sc, s\<lparr>cache := filter (\<lambda>e. fst e \<noteq> storage_context_key dir) (cache s)
                              @ [(storage_context_key dir, sc, expires)]\<rparr>)"
  using cache_getitem_hit[OF assms] by (simp add: get_storage_context_def Let_def)

lemma get_storage_context_miss:
  assumes "cache_getitem (cache s) (storage_context_key dir) (timer lb (world s)) = None"
  shows "get_storage_context lb dir vs fs s
         = (case from_defaults lb (Some dir) vs fs (world s) of
              (Inl e, w') \<Rightarrow> (Inl e, s\<lparr>world := w', trace := trace s @ [Ev_from_defaults (Some dir) vs fs]\<rparr>)
            | (Inr v, w') \<Rightarrow>
                (Inr v, s\<lparr>world := w', trace := trace s @ [Ev_from_defaults (Some dir) vs fs],
                          cache := cache_setitem (cache s) (storage_context_key dir) v (timer lb w')\<rparr>))"
  using assms by (simp add: get_storage_context_def call_def split: prod.splits sum.splits)

lemma get_storage_context_cached:
  assumes "get_storage_context lb dir vs fs s = (Inr sc, s1)"
  shows "\<exists>expires. map_of (cache s1) (storage_context_key dir) = Some (sc, expires)
           \<and> (cache_getitem (cache s) (storage_context_key dir) (timer lb (world s)) = None
                \<longrightarrow> expires = timer lb (world s1) + cache_ttl)"
proof (cases "cache_getitem (cache s) (storage_context_key dir) (timer lb (world s))")
  case None
  from assms show ?thesis
    unfolding get_storage_context_miss[OF None]
    by (auto simp: cache_setitem_lookup split: prod.splits sum.splits)
next
  case (Some vc)
  obtain v c' where vc: "vc = (v, c')" by (cases vc)
  from cache_getitem_Some[of "cache s" _ _ v c'] Some vc
  obtain expires where m: "map_of (cache s) (storage_context_key dir) = Some (v, expires)"
    and t: "timer lb (world s) < expires" by auto
  from assms have "v = sc" and "cache s1 = filter (\<lambda>e. fst e \<noteq> storage_context_key dir) (cache s)
                              @ [(storage_context_key dir, sc, expires)]"
    unfolding get_storage_context_hit[OF m t] by auto
  then have "map_of (cache s1) (storage_context_key dir) = Some (sc, expires)"
    by (simp add: map_add_def map_of_filter_key_None)
  with Some show ?thesis by simp
qed

text \<open>
  Claim C6. The cache key is computed from the persistence location alone. When a call of
  \<^const>\<open>get_storage_context\<close> for a location returns a storage context, that context is
  the cache's entry for the location, and every call for the same location made while the
  entry has not expired returns the same context, whatever vector store handle and
  filesystem it passes, without loading anything.
\<close>

theorem storage_context_cache_key_location_only:
  assumes "get_storage_context lb dir vs1 fs1 s = (Inr sc, s1)"
  shows "\<exists>expires. map_of (cache s1) (storage_context_key dir) = Some (sc, expires)
           \<and> (\<forall>s2 vs2 fs2. cache s2 = cache s1 \<and> timer lb (world s2) < expires \<longrightarrow>
                  fst (get_storage_context lb dir vs2 fs2 s2) = Inr sc
                  \<and> trace (snd (get_storage_context lb dir vs2 fs2 s2)) = trace s2
                  \<and> world (snd (get_storage_context lb dir vs2 fs2 s2)) = world s2)"
proof -
  from get_storage_context_cached[OF assms]
  obtain expires where m: "map_of (cache s1) (storage_context_key dir) = Some (sc, expires)"
    by blast
  have "fst (get_storage_context lb dir vs2 fs2 s2) = Inr sc
        \<and> trace (snd (get_storage_context lb dir vs2 fs2 s2)) = trace s2
        \<and> world (snd (get_storage_context lb dir vs2 fs2 s2)) = world s2"
    if "cache s2 = cache s1" "timer lb (world s2) < expires" for s2 vs2 fs2
  proof -
    from that m have m2: "map_of (cache s2) (storage_context_key dir) = Some (sc, expires)" by simp
    show ?thesis unfolding get_storage_context_hit[OF m2 that(2)] by simp
  qed
  with m show ?thesis by blast
qed

text \<open>
  Claim C7. An entry that a call of \<^const>\<open>get_storage_context\<close> created at time \<open>t\<close>
  is returned at every time before \<open>t + 5 * 60\<close> seconds and at no time from then on,
  however many lookups were made in between: from then on a call for the location loads
  from the location again.
\<close>

theorem storage_context_entry_expires:
  assumes miss: "cache_getitem (cache s) (storage_context_key dir) (timer lb (world s)) = None"
      and run: "get_storage_context lb dir vs fs s = (Inr sc, s1)"
      and later: "cache s2 = cache_reads (cache s1) reads"
  shows "(timer lb (world s2) < timer lb (world s1) + 5 * 60 \<longrightarrow>
            fst (get_storage_context lb dir vs2 fs2 s2) = Inr sc
            \<and> trace (snd (get_storage_context lb dir vs2 fs2 s2)) = trace s2)
       \<and> (timer lb (world s1) + 5 * 60 \<le> timer lb (world s2) \<longrightarrow>
            cache_getitem (cache s2) (storage_context_key dir) (timer lb (world s2)) = None
            \<and> trace (snd (get_storage_context lb dir vs2 fs2 s2))
                = trace s2 @ [Ev_from_defaults (Some dir) vs2 fs2])"
proof -
  let ?k = "storage_context_key dir"
  let ?ex = "timer lb (world s1) + 5 * 60"
  from get_storage_context_cached[OF run] miss
  have "map_of (cache s1) ?k = Some (sc, ?ex)" by (auto simp: cache_ttl_def)
  with later have m2: "map_of (cache s2) ?k = Some (sc, ?ex)"
    by (simp add: cache_reads_map_of)
  have a: "fst (get_storage_context lb dir vs2 fs2 s2) = Inr sc
            \<and> trace (snd (get_storage_context lb dir vs2 fs2 s2)) = trace s2"
    if "timer lb (world s2) < ?ex"
    unfolding get_storage_context_hit[OF m2 that] by simp
  have b: "cache_getitem (cache s2) ?k (timer lb (world s2)) = None
            \<and> trace (snd (get_storage_context lb dir vs2 fs2 s2))
                = trace s2 @ [Ev_from_defaults (Some dir) vs2 fs2]"
    if "?ex \<le> timer lb (world s2)"
  proof -
    have n: "cache_getitem (cache s2) ?k (timer lb (world s2)) = None"
      using cache_getitem_expired[OF m2 that] .
    show ?thesis unfolding get_storage_context_miss[OF n] using n
      by (simp split: prod.splits sum.splits)
  qed
  from a b show ?thesis by blast
qed

lemma demo_first_call:
  "get_storage_context demo_lib ''bucket'' 7 None (start world_A)
   = (Inr context_A,
      \<lparr>cache = [(''storage_context_bucket'', context_A, 300)],
       trace = [Ev_from_defaults (Some ''bucket'') 7 None],
       world = world_A\<rparr>)"
  by (simp add: get_storage_context_def cache_getitem_def start_def call_def demo_lib_def
      demo_from_defaults_def world_A_def cache_setitem_def cache_ttl_def cache_maxsize_def
      storage_context_key_def context_A_def)

theorem storage_context_cache_key_location_only_witness:
  "fst (get_storage_context demo_lib ''bucket'' 8 (Some 3)
          \<lparr>cache = [(''storage_context_bucket'', context_A, 300)], trace = [],
           world = world_A\<lparr>clock := 100\<rparr>\<rparr>) = Inr context_A"
proof -
  let ?s1 = "\<lparr>cache = [(''storage_context_bucket'', context_A, 300)],
              trace = [Ev_from_defaults (Some ''bucket'') 7 None], world = world_A\<rparr>"
  let ?s2 = "\<lparr>cache = [(''storage_context_bucket'', context_A, 300)], trace = [],
              world = world_A\<lparr>clock := 100\<rparr>\<rparr>"
  from storage_context_cache_key_location_only[OF demo_first_call]
  obtain expires where m: "map_of (cache ?s1) (storage_context_key ''bucket'') = Some (context_A, expires)"
    and later: "\<And>s2 vs2 fs2. cache s2 = cache ?s1 \<and> timer demo_lib (world s2) < expires \<Longrightarrow>
                  fst (get_storage_context demo_lib ''bucket'' vs2 fs2 s2) = Inr context_A"
    by blast
  from m have e: "expires = 300" by (simp add: storage_context_key_def)
  have "cache ?s2 = cache ?s1 \<and> timer demo_lib (world ?s2) < expires"
    unfolding e by (simp add: demo_lib_def)
  from later[OF this] show ?thesis .
qed

theorem storage_context_entry_expires_witness:
  "fst (get_storage_context demo_lib ''bucket'' 7 None
          \<lparr>cache = [(''storage_context_bucket'', context_A, 300)], trace = [],
           world = world_A\<lparr>clock := 299\<rparr>\<rparr>) = Inr context_A
   \<and> trace (snd (get_storage_context demo_lib ''bucket'' 7 None
          \<lparr>cache = [(''storage_context_bucket'', context_A, 300)], trace = [],
           world = world_A\<lparr>clock := 299\<rparr>\<rparr>)) = []
   \<and> trace (snd (get_storage_context demo_lib ''bucket'' 7 None
          \<lparr>cache = [(''storage_context_bucket'', context_A, 300)], trace = [],
           world = world_A\<lparr>clock := 300\<rparr>\<rparr>)) = [Ev_from_defaults (Some ''bucket'') 7 None]"
proof -
  let ?k = "''storage_context_bucket''"
  let ?s1 = "\<lparr>cache = [(?k, context_A, 300)],
              trace = [Ev_from_defaults (Some ''bucket'') 7 None], world = world_A\<rparr>"
  let ?early = "\<lparr>cache = [(?k, context_A, 300)], trace = [], world = world_A\<lparr>clock := 299\<rparr>\<rparr>"
  let ?late = "\<lparr>cache = [(?k, context_A, 300)], trace = [], world = world_A\<lparr>clock := 300\<rparr>\<rparr>"
  have miss: "cache_getitem (cache (start world_A)) (storage_context_key ''bucket'')
                (timer demo_lib (world (start world_A))) = None"
    by (simp add: start_def cache_getitem_def)
  have reads: "cache_reads (cache ?s1) [(?k, 10), (?k, 200)] = [(?k, context_A, 300)]"
    by (simp add: cache_getitem_def)
  have t1: "timer demo_lib (world ?s1) = 0" by (simp add: demo_lib_def world_A_def)
  have a: "cache ?early = cache_reads (cache ?s1) [(?k, 10), (?k, 200)]"
    unfolding reads by simp
  have b: "cache ?late = cache_reads (cache ?s1) [(?k, 10), (?k, 200)]"
    unfolding reads by simp
  have te: "timer demo_lib (world ?early) < timer demo_lib (world ?s1) + 5 * 60"
    by (simp add: demo_lib_def world_A_def)
  have tl: "timer demo_lib (world ?s1) + 5 * 60 \<le> timer demo_lib (world ?late)"
    by (simp add: demo_lib_def world_A_def)
  from storage_context_entry_expires[OF miss demo_first_call a, of 7 None] te
  have e: "fst (get_storage_context demo_lib ''bucket'' 7 None ?early) = Inr context_A
           \<and> trace (snd (get_storage_context demo_lib ''bucket'' 7 None ?early)) = trace ?early"
    by blast
  from storage_context_entry_expires[OF miss demo_first_call b, of 7 None] tl
  have l: "trace (snd (get_storage_context demo_lib ''bucket'' 7 None ?late))
           = trace ?late @ [Ev_from_defaults (Some ''bucket'') 7 None]"
    by blast
  from e l show ?thesis by simp
qed

section \<open>The agent's tool budget\<close>

declare turn_loop.simps [simp del]

lemma turn_loop_budget:
  "length results \<le> budget \<Longrightarrow>
   length (tool_results (turn_loop budget decide run_tool assemble results seen)) \<le> budget"
proof (induction budget decide run_tool assemble results seen rule: turn_loop.induct)
  case (1 budget decide run_tool assemble results seen)
  show ?case
  proof (cases "decide results")
    case (Respond answer)
    with "1.prems" show ?thesis by (subst turn_loop.simps) simp
  next
    case (CallTool q)
    show ?thesis
    proof (cases "length results < budget")
      case True
      with "1.IH"[OF CallTool True] CallTool show ?thesis
        by (subst turn_loop.simps) simp
    next
      case False
      with "1.prems" CallTool show ?thesis by (subst turn_loop.simps) simp
    qed
  qed
qed

lemma turn_loop_dispatches:
  "length (filter (\<lambda>q. q = tool_dispatch) (visited (turn_loop budget decide run_tool assemble results seen)))
     + length results
   = length (filter (\<lambda>q. q = tool_dispatch) seen)
     + length (tool_results (turn_loop budget decide run_tool assemble results seen))"
proof (induction budget decide run_tool assemble results seen rule: turn_loop.induct)
  case (1 budget decide run_tool assemble results seen)
  show ?case
  proof (cases "decide results")
    case (Respond answer)
    then show ?thesis by (subst (1 2) turn_loop.simps) simp
  next
    case (CallTool q)
    show ?thesis
    proof (cases "length results < budget")
      case True
      with "1.IH"[OF CallTool True] CallTool show ?thesis
        by (subst (1 2) turn_loop.simps) simp
    next
      case False
      with CallTool show ?thesis by (subst (1 2) turn_loop.simps) simp
    qed
  qed
qed

lemma turn_loop_ends:
  "\<exists>pre. visited (turn_loop budget decide run_tool assemble results seen) = pre @ [responding, idle]"
proof (induction budget decide run_tool assemble results seen rule: turn_loop.induct)
  case (1 budget decide run_tool assemble results seen)
  show ?case
  proof (cases "decide results")
    case (Respond answer)
    then show ?thesis by (subst turn_loop.simps) simp
  next
    case (CallTool q)
    show ?thesis
    proof (cases "length results < budget")
      case True
      with "1.IH"[OF CallTool True] CallTool show ?thesis
        by (subst turn_loop.simps) simp
    next
      case False
      with CallTool show ?thesis by (subst turn_loop.simps) simp
    qed
  qed
qed

lemma turn_loop_exhausts:
  "\<forall>rs. \<exists>q. decide rs = CallTool q \<Longrightarrow> length results \<le> budget \<Longrightarrow>
   length (tool_results (turn_loop budget decide run_tool assemble results seen)) = budget
   \<and> response (turn_loop budget decide run_tool assemble results seen)
       = assemble (tool_results (turn_loop budget decide run_tool assemble results seen))"
proof (induction budget decide run_tool assemble results seen rule: turn_loop.induct)
  case (1 budget decide run_tool assemble results seen)
  from "1.prems"(1) obtain q where q: "decide results = CallTool q" by blast
  show ?case
  proof (cases "length results < budget")
    case True
    with "1.IH"[OF q True "1.prems"(1)] q show ?thesis
      by (subst (1 2 3) turn_loop.simps) simp
  next
    case False
    with "1.prems"(2) q show ?thesis by (subst (1 2 3) turn_loop.simps) simp
  qed
qed

lemma get_chat_engine_budget:
  assumes "get_chat_engine lb st h conv s = (Inr agent, s')"
  shows "max_function_calls agent = 3"
  using assms
  by (auto simp: get_chat_engine_def seq_def raise_def Let_def split: prod.splits sum.splits)

text \<open>
  Claim C2. For every agent that \<^const>\<open>get_chat_engine\<close> builds (its budget is the
  \<open>max_function_calls = 3\<close> of the source), a turn invokes the tool at most three times,
  each invocation being one visit of \<open>tool_dispatch\<close>, and ends in \<open>responding\<close> and
  then \<open>idle\<close>. When the reasoning step asks for the tool every time, the turn stops
  after exactly three invocations and the response is assembled from the three results.
\<close>

theorem tool_call_budget:
  assumes "get_chat_engine lb st h conv s = (Inr agent, s')"
  shows "length (tool_results (run_turn agent reason run_tool assemble msg)) \<le> 3
     \<and> length (filter (\<lambda>q. q = tool_dispatch) (visited (run_turn agent reason run_tool assemble msg)))
         = length (tool_results (run_turn agent reason run_tool assemble msg))
     \<and> (\<exists>pre. visited (run_turn agent reason run_tool assemble msg) = pre @ [responding, idle])
     \<and> ((\<forall>rs. \<exists>q. reason (chat_history agent) (system_prompt agent) msg rs = CallTool q) \<longrightarrow>
          length (tool_results (run_turn agent reason run_tool assemble msg)) = 3
          \<and> response (run_turn agent reason run_tool assemble msg)
              = assemble (tool_results (run_turn agent reason run_tool assemble msg)))"
proof -
  let ?decide = "reason (chat_history agent) (system_prompt agent) msg"
  let ?t = "turn_loop 3 ?decide run_tool assemble [] [idle, awaiting_model]"
  have run: "run_turn agent reason run_tool assemble msg = ?t"
    by (simp add: run_turn_def get_chat_engine_budget[OF assms])
  have a: "length (tool_results ?t) \<le> 3"
    by (rule turn_loop_budget) simp
  have b: "length (filter (\<lambda>q. q = tool_dispatch) (visited ?t)) = length (tool_results ?t)"
    using turn_loop_dispatches[of 3 ?decide run_tool assemble "[]" "[idle, awaiting_model]"] by simp
  have c: "\<exists>pre. visited ?t = pre @ [responding, idle]"
    by (rule turn_loop_ends)
  have d: "length (tool_results ?t) = 3 \<and> response ?t = assemble (tool_results ?t)"
    if "\<forall>rs. \<exists>q. ?decide rs = CallTool q"
    using turn_loop_exhausts[OF that, of "[]" 3] by simp
  from a b c d show ?thesis unfolding run by blast
qed

lemma demo_empty_engine_built:
  "\<exists>agent s'. get_chat_engine demo_lib demo_settings 1 \<lparr>documents = [], messages = []\<rparr> (start world_A)
      = (Inr agent, s')"
  by (simp add: get_chat_engine_def seq_def raise_def ret_def Let_def get_s3_fs_def demo_settings_def
      build_doc_id_to_index_map_def try_except_def load_existing_def obtain_storage_context_def
      get_storage_context_def cache_getitem_def start_def call_def demo_lib_def
      demo_from_defaults_def world_A_def cache_setitem_def cache_ttl_def cache_maxsize_def
      storage_context_key_def dict_of_def)
theorem tool_call_budget_witness:
  "\<exists>agent s'. get_chat_engine demo_lib demo_settings 1 \<lparr>documents = [], messages = []\<rparr> (start world_A)
        = (Inr agent, s')
     \<and> length (tool_results (run_turn agent (\<lambda>history prompt msg rs. CallTool ''dose?'')
                 (\<lambda>q. ''answer to '' @ q) concat ''What is the dose?'')) = 3"
proof -
  from demo_empty_engine_built obtain agent s'
    where b: "get_chat_engine demo_lib demo_settings 1 \<lparr>documents = [], messages = []\<rparr> (start world_A)
                = (Inr agent, s')"
    by blast
  from tool_call_budget[OF b, of "\<lambda>history prompt msg rs. CallTool ''dose?''"
          "\<lambda>q. ''answer to '' @ q" concat "''What is the dose?''"]
  have "length (tool_results (run_turn agent (\<lambda>history prompt msg rs. CallTool ''dose?'')
                 (\<lambda>q. ''answer to '' @ q) concat ''What is the dose?'')) = 3"
    by blast
  with b show ?thesis by blast
qed

section \<open>Building or loading the indices\<close>

lemma trace_grows_byD:
  assumes "trace_grows_by P m" "m s = (r, s')"
  shows "\<exists>evs. trace s' = trace s @ evs \<and> list_all P evs"
  using assms unfolding trace_grows_by_def by (metis snd_conv)

lemma grows_ret: "trace_grows_by P (ret a)"
  by (simp add: trace_grows_by_def ret_def)

lemma grows_raise: "trace_grows_by P (raise e)"
  by (simp add: trace_grows_by_def raise_def)

lemma grows_call: "P ev \<Longrightarrow> trace_grows_by P (call ev f)"
  by (auto simp: trace_grows_by_def call_def split: prod.splits)

lemma grows_seq:
  assumes "trace_grows_by P m" "\<And>a. trace_grows_by P (f a)"
  shows "trace_grows_by P (seq m f)"
  unfolding trace_grows_by_def
proof
  fix s
  obtain r s1 where m: "m s = (r, s1)" by (cases "m s")
  from trace_grows_byD[OF assms(1) m] obtain e1 where e1: "trace s1 = trace s @ e1" "list_all P e1"
    by blast
  show "\<exists>evs. trace (snd (seq m f s)) = trace s @ evs \<and> list_all P evs"
  proof (cases r)
    case (Inl e)
    with m e1 show ?thesis by (auto simp: seq_def)
  next
    case (Inr a)
    obtain r2 s2 where f: "f a s1 = (r2, s2)" by (cases "f a s1")
    from trace_grows_byD[OF assms(2) f] obtain e2 where e2: "trace s2 = trace s1 @ e2" "list_all P e2"
      by blast
    from m Inr f e1 e2 have "trace (snd (seq m f s)) = trace s @ (e1 @ e2)" "list_all P (e1 @ e2)"
      by (auto simp: seq_def)
    then show ?thesis by blast
  qed
qed

lemma grows_try_except:
  assumes "trace_grows_by P m" "trace_grows_by P h"
  shows "trace_grows_by P (try_except m is_C h)"
  unfolding trace_grows_by_def
proof
  fix s
  obtain r s1 where m: "m s = (r, s1)" by (cases "m s")
  from trace_grows_byD[OF assms(1) m] obtain e1 where e1: "trace s1 = trace s @ e1" "list_all P e1"
    by blast
  obtain r2 s2 where h: "h s1 = (r2, s2)" by (cases "h s1")
  from trace_grows_byD[OF assms(2) h] obtain e2 where e2: "trace s2 = trace s1 @ e2" "list_all P e2"
    by blast
  have "trace (snd (try_except m is_C h s)) = trace s @ e1
        \<or> trace (snd (try_except m is_C h s)) = trace s @ (e1 @ e2)"
    using m h e1 e2 by (auto simp: try_except_def split: sum.splits)
  moreover have "list_all P (e1 @ e2)" using e1 e2 by simp
  ultimately show "\<exists>evs. trace (snd (try_except m is_C h s)) = trace s @ evs \<and> list_all P evs"
    using e1(2) by blast
qed

lemma grows_get_storage_context:
  assumes "P (Ev_from_defaults (Some dir) vs fs)"
  shows "trace_grows_by P (get_storage_context lb dir vs fs)"
  unfolding trace_grows_by_def
proof
  fix s
  show "\<exists>evs. trace (snd (get_storage_context lb dir vs fs s)) = trace s @ evs \<and> list_all P evs"
  proof (cases "cache_getitem (cache s) (storage_context_key dir) (timer lb (world s))")
    case None
    have "trace (snd (get_storage_context lb dir vs fs s)) = trace s @ [Ev_from_defaults (Some dir) vs fs]"
      unfolding get_storage_context_miss[OF None] by (simp split: prod.splits sum.splits)
    with assms show ?thesis by simp
  next
    case (Some vc)
    then have "trace (snd (get_storage_context lb dir vs fs s)) = trace s @ []"
      by (cases vc) (simp add: get_storage_context_def Let_def)
    moreover have "list_all P []" by simp
    ultimately show ?thesis by blast
  qed
qed

lemma grows_obtain_storage_context:
  "trace_grows_by quiet (obtain_storage_context lb dir vs fs)"
  unfolding obtain_storage_context_def
  by (intro grows_try_except grows_get_storage_context grows_seq grows_call grows_ret)
     (simp_all add: quiet_def)

lemma grows_load_existing:
  "trace_grows_by quiet (load_existing lb svc docs dir vs fs)"
  unfolding load_existing_def Let_def
  by (intro grows_seq grows_obtain_storage_context grows_call grows_ret) (simp add: quiet_def)

lemma grows_get_s3_fs: "trace_grows_by (\<lambda>_. True) (get_s3_fs lb st)"
  unfolding get_s3_fs_def Let_def
  by (auto intro!: grows_seq grows_call grows_ret)

lemma grows_fetch: "trace_grows_by (\<lambda>_. True) (fetch_and_read_document lb st doc)"
  unfolding fetch_and_read_document_def Let_def
  by (auto intro!: grows_seq grows_call grows_ret grows_raise grows_get_s3_fs split: option.splits)

lemma grows_rebuild_document:
  "trace_grows_by (\<lambda>_. True) (rebuild_document lb st svc dir fs doc sc)"
  unfolding rebuild_document_def Let_def
  by (intro grows_seq grows_call grows_ret grows_fetch) simp_all

lemma grows_rebuild_loop:
  "trace_grows_by (\<lambda>_. True) (rebuild_loop lb st svc dir fs docs sc m)"
proof (induction docs arbitrary: sc m)
  case Nil
  show ?case by (simp add: trace_grows_by_def)
next
  case (Cons doc docs)
  show ?case unfolding trace_grows_by_def
  proof
    fix s
    obtain r s1 where d: "rebuild_document lb st svc dir fs doc sc s = (r, s1)"
      by (cases "rebuild_document lb st svc dir fs doc sc s")
    from trace_grows_byD[OF grows_rebuild_document d] obtain e1 where e1: "trace s1 = trace s @ e1"
      by blast
    show "\<exists>evs. trace (snd (rebuild_loop lb st svc dir fs (doc # docs) sc m s)) = trace s @ evs
            \<and> list_all (\<lambda>_. True) evs"
    proof (cases r)
      case (Inl e)
      with d e1 show ?thesis by (simp add: list_all_iff)
    next
      case (Inr named)
      let ?next = "rebuild_loop lb st svc dir fs docs (snd named)
                     (AList.update (document_id doc) (fst named) m)"
      obtain r2 s2 where l: "?next s1 = (r2, s2)" by (cases "?next s1")
      from trace_grows_byD[OF Cons.IH l] obtain e2 where "trace s2 = trace s1 @ e2" by blast
      with d Inr l e1 have "trace (snd (rebuild_loop lb st svc dir fs (doc # docs) sc m s)) = trace s @ (e1 @ e2)"
        by simp
      then show ?thesis by (metis list_all_iff)
    qed
  qed
qed

lemma grows_rebuild_all:
  "trace_grows_by (\<lambda>_. True) (rebuild_all lb st svc docs dir vs fs)"
  unfolding rebuild_all_def
  by (intro grows_seq grows_call grows_rebuild_loop) simp

lemma build_unfold:
  assumes "get_vector_store_singleton lb (world s) = (Inr vs, w1)"
  shows "build_doc_id_to_index_map lb st svc docs fs s
         = try_except (load_existing lb svc docs (S3_BUCKET_NAME st) vs fs) is_ValueError
             (rebuild_all lb st svc docs (S3_BUCKET_NAME st) vs fs)
             (s\<lparr>world := w1, trace := trace s @ [Ev_get_vector_store_singleton]\<rparr>)"
  using assms by (simp add: build_doc_id_to_index_map_def seq_def call_def Let_def)

lemma map_of_foldl_update:
  "map_of (foldl (\<lambda>d kv. AList.update (fst kv) (snd kv) d) d0 ps) = map_of (rev ps @ d0)"
proof (induction ps arbitrary: d0)
  case Nil
  show ?case by simp
next
  case (Cons kv ps)
  have "map_of (AList.update (fst kv) (snd kv) d0) = map_of (kv # d0)"
    by (rule ext) (simp add: update_conv)
  then have "map_of (rev ps @ AList.update (fst kv) (snd kv) d0) = map_of (rev ps @ kv # d0)"
    by (simp add: map_of_append)
  with Cons[of "AList.update (fst kv) (snd kv) d0"] show ?case by simp
qed

lemma map_of_dict_of: "map_of (dict_of ps) = map_of (rev ps)"
  using map_of_foldl_update[of "[]" ps] by (simp add: dict_of_def)

lemma load_existing_unfold:
  assumes "obtain_storage_context lb dir vs fs s1 = (Inr sc, s2)"
  shows "load_existing lb svc docs dir vs fs s1
         = (case load_indices_from_storage lb sc (map document_id docs) svc (world s2) of
              (Inl e, w3) \<Rightarrow>
                (Inl e, s2\<lparr>world := w3,
                           trace := trace s2 @ [Ev_load_indices_from_storage sc (map document_id docs)]\<rparr>)
            | (Inr indices, w3) \<Rightarrow>
                (Inr (dict_of (zip (map document_id docs) indices)),
                 s2\<lparr>world := w3,
                    trace := trace s2 @ [Ev_load_indices_from_storage sc (map document_id docs)]\<rparr>))"
  using assms
  by (simp add: load_existing_def seq_def call_def ret_def Let_def split: prod.splits sum.splits)

text \<open>
  The bulk-load path. When the bulk load of all requested document ids succeeds on the
  storage context that the call obtains (the cached one, or the one loaded from or created
  at the location), \<^const>\<open>build_doc_id_to_index_map\<close> returns the loaded indices under
  their document ids (for an id that occurs twice, the last one loaded) and stops there:
  the call made no chunker run and no index build, so no embedding call.
\<close>

lemma bulk_load_returns_existing_indices:
  assumes gvs: "get_vector_store_singleton lb (world s) = (Inr vs, w1)"
      and ctx: "obtain_storage_context lb (S3_BUCKET_NAME st) vs fs
                  (s\<lparr>world := w1, trace := trace s @ [Ev_get_vector_store_singleton]\<rparr>) = (Inr sc, s2)"
      and load: "load_indices_from_storage lb sc (map document_id docs) svc (world s2) = (Inr indices, w3)"
  shows "build_doc_id_to_index_map lb st svc docs fs s
           = (Inr (dict_of (zip (map document_id docs) indices)),
              s2\<lparr>world := w3,
                 trace := trace s2 @ [Ev_load_indices_from_storage sc (map document_id docs)]\<rparr>)
       \<and> (\<forall>k. map_of (dict_of (zip (map document_id docs) indices)) k
                = map_of (rev (zip (map document_id docs) indices)) k)
       \<and> (\<exists>evs. trace s2 @ [Ev_load_indices_from_storage sc (map document_id docs)] = trace s @ evs
                \<and> list_all (\<lambda>ev. \<not> chunking_event ev \<and> \<not> embedding_event ev) evs)"
proof -
  let ?s1 = "s\<lparr>world := w1, trace := trace s @ [Ev_get_vector_store_singleton]\<rparr>"
  let ?ev = "Ev_load_indices_from_storage sc (map document_id docs)"
  have a: "build_doc_id_to_index_map lb st svc docs fs s
           = (Inr (dict_of (zip (map document_id docs) indices)), s2\<lparr>world := w3, trace := trace s2 @ [?ev]\<rparr>)"
    unfolding build_unfold[OF gvs] using load
    by (simp add: try_except_def load_existing_unfold[OF ctx])
  have b: "\<forall>k. map_of (dict_of (zip (map document_id docs) indices)) k
                = map_of (rev (zip (map document_id docs) indices)) k"
    by (simp add: map_of_dict_of)
  from trace_grows_byD[OF grows_obtain_storage_context ctx]
  obtain e1 where e1: "trace s2 = trace ?s1 @ e1" "list_all quiet e1" by blast
  have "trace s2 @ [?ev] = trace s @ ([Ev_get_vector_store_singleton] @ e1 @ [?ev])"
    using e1 by simp
  moreover have "list_all (\<lambda>ev. \<not> chunking_event ev \<and> \<not> embedding_event ev)
                   ([Ev_get_vector_store_singleton] @ e1 @ [?ev])"
    using e1(2) by (simp add: quiet_def[abs_def])
  ultimately have c: "\<exists>evs. trace s2 @ [?ev] = trace s @ evs
                \<and> list_all (\<lambda>ev. \<not> chunking_event ev \<and> \<not> embedding_event ev) evs"
    by blast
  from a b c show ?thesis by blast
qed

text \<open>
  Claim C3, as amended. When the body of the \<^verbatim>\<open>try\<close> of
  \<^const>\<open>build_doc_id_to_index_map\<close> fails with an exception, the per-document rebuild
  runs exactly when the exception is a \<^verbatim>\<open>ValueError\<close> (the class or a subclass, whatever
  the cause); an exception of any other class goes to the caller as it is. Up to the
  failure no chunker run and no index build was made.
\<close>

theorem load_failure_dispatch_on_ValueError:
  assumes gvs: "get_vector_store_singleton lb (world s) = (Inr vs, w1)"
      and fail: "load_existing lb svc docs (S3_BUCKET_NAME st) vs fs
                   (s\<lparr>world := w1, trace := trace s @ [Ev_get_vector_store_singleton]\<rparr>) = (Inl e, s2)"
  shows "build_doc_id_to_index_map lb st svc docs fs s
           = (if is_ValueError e
              then rebuild_all lb st svc docs (S3_BUCKET_NAME st) vs fs s2
              else (Inl e, s2))
       \<and> (\<exists>evs. trace s2 = trace s @ evs
                \<and> list_all (\<lambda>ev. \<not> chunking_event ev \<and> \<not> embedding_event ev) evs)"
proof -
  let ?s1 = "s\<lparr>world := w1, trace := trace s @ [Ev_get_vector_store_singleton]\<rparr>"
  have a: "build_doc_id_to_index_map lb st svc docs fs s
           = (if is_ValueError e
              then rebuild_all lb st svc docs (S3_BUCKET_NAME st) vs fs s2
              else (Inl e, s2))"
    unfolding build_unfold[OF gvs] using fail by (simp add: try_except_def)
  from trace_grows_byD[OF grows_load_existing fail]
  obtain e1 where e1: "trace s2 = trace ?s1 @ e1" "list_all quiet e1" by blast
  have "trace s2 = trace s @ ([Ev_get_vector_store_singleton] @ e1)" using e1 by simp
  moreover have "list_all (\<lambda>ev. \<not> chunking_event ev \<and> \<not> embedding_event ev)
                   ([Ev_get_vector_store_singleton] @ e1)"
    using e1(2) by (simp add: quiet_def[abs_def])
  ultimately have b: "\<exists>evs. trace s2 = trace s @ evs
                \<and> list_all (\<lambda>ev. \<not> chunking_event ev \<and> \<not> embedding_event ev) evs"
    by blast
  from a b show ?thesis by blast
qed

text \<open>
  Claim C8. On a cache miss the first storage call of \<^const>\<open>build_doc_id_to_index_map\<close>
  loads the storage context from the location. When that fails because nothing is
  persisted there (\<^verbatim>\<open>FileNotFoundError\<close>), the code creates a new empty storage context
  and persists it to the location at once; this context is the one the call goes on with,
  and the bulk load of indices, the first index work, comes after the three storage calls.
\<close>

theorem storage_context_created_when_missing:
  assumes gvs: "get_vector_store_singleton lb (world s) = (Inr vs, w1)"
      and miss: "cache_getitem (cache s) (storage_context_key (S3_BUCKET_NAME st)) (timer lb w1) = None"
      and nf: "from_defaults lb (Some (S3_BUCKET_NAME st)) vs fs w1 = (Inl e, w2)"
      and cls: "is_FileNotFoundError e"
      and new: "from_defaults lb None vs fs w2 = (Inr sc, w3)"
      and per: "persist lb sc (S3_BUCKET_NAME st) fs w3 = (Inr (), w4)"
  shows "obtain_storage_context lb (S3_BUCKET_NAME st) vs fs
           (s\<lparr>world := w1, trace := trace s @ [Ev_get_vector_store_singleton]\<rparr>)
         = (Inr sc,
            s\<lparr>world := w4,
              trace := trace s @ [Ev_get_vector_store_singleton,
                                  Ev_from_defaults (Some (S3_BUCKET_NAME st)) vs fs,
                                  Ev_from_defaults None vs fs,
                                  Ev_persist sc (S3_BUCKET_NAME st)]\<rparr>)
       \<and> (\<exists>rest. trace (snd (build_doc_id_to_index_map lb st svc docs fs s))
                 = trace s @ [Ev_get_vector_store_singleton,
                              Ev_from_defaults (Some (S3_BUCKET_NAME st)) vs fs,
                              Ev_from_defaults None vs fs,
                              Ev_persist sc (S3_BUCKET_NAME st),
                              Ev_load_indices_from_storage sc (map document_id docs)] @ rest)"
proof -
  let ?dir = "S3_BUCKET_NAME st"
  let ?s1 = "s\<lparr>world := w1, trace := trace s @ [Ev_get_vector_store_singleton]\<rparr>"
  let ?s2 = "s\<lparr>world := w4,
              trace := trace s @ [Ev_get_vector_store_singleton,
                                  Ev_from_defaults (Some ?dir) vs fs,
                                  Ev_from_defaults None vs fs,
                                  Ev_persist sc ?dir]\<rparr>"
  let ?ev = "Ev_load_indices_from_storage sc (map document_id docs)"
  have miss1: "cache_getitem (cache ?s1) (storage_context_key ?dir) (timer lb (world ?s1)) = None"
    using miss by simp
  have g: "get_storage_context lb ?dir vs fs ?s1
           = (Inl e, ?s1\<lparr>world := w2, trace := trace ?s1 @ [Ev_from_defaults (Some ?dir) vs fs]\<rparr>)"
    unfolding get_storage_context_miss[OF miss1] using nf by simp
  have a: "obtain_storage_context lb ?dir vs fs ?s1 = (Inr sc, ?s2)"
    using cls new per
    by (simp add: obtain_storage_context_def try_except_def g seq_def call_def ret_def)
  obtain r w5 where l: "load_indices_from_storage lb sc (map document_id docs) svc w4 = (r, w5)"
    by (cases "load_indices_from_storage lb sc (map document_id docs) svc w4")
  let ?s3 = "?s2\<lparr>world := w5, trace := trace ?s2 @ [?ev]\<rparr>"
  have t3: "trace ?s3 = trace s @ [Ev_get_vector_store_singleton,
                              Ev_from_defaults (Some ?dir) vs fs,
                              Ev_from_defaults None vs fs,
                              Ev_persist sc ?dir, ?ev]"
    by simp
  have b: "\<exists>rest. trace (snd (build_doc_id_to_index_map lb st svc docs fs s)) = trace ?s3 @ rest"
  proof (cases r)
    case (Inr indices)
    with l have "load_existing lb svc docs ?dir vs fs ?s1
                   = (Inr (dict_of (zip (map document_id docs) indices)), ?s3)"
      unfolding load_existing_unfold[OF a] by simp
    then have "snd (build_doc_id_to_index_map lb st svc docs fs s) = ?s3"
      unfolding build_unfold[OF gvs] by (simp add: try_except_def)
    then show ?thesis by simp
  next
    case (Inl e')
    with l have le: "load_existing lb svc docs ?dir vs fs ?s1 = (Inl e', ?s3)"
      unfolding load_existing_unfold[OF a] by simp
    show ?thesis
    proof (cases "is_ValueError e'")
      case False
      with le have "snd (build_doc_id_to_index_map lb st svc docs fs s) = ?s3"
        unfolding build_unfold[OF gvs] by (simp add: try_except_def)
      then show ?thesis by simp
    next
      case True
      with le have eq: "build_doc_id_to_index_map lb st svc docs fs s
                      = rebuild_all lb st svc docs ?dir vs fs ?s3"
        unfolding build_unfold[OF gvs] by (simp add: try_except_def)
      obtain r' s' where ra: "rebuild_all lb st svc docs ?dir vs fs ?s3 = (r', s')"
        by (cases "rebuild_all lb st svc docs ?dir vs fs ?s3")
      from trace_grows_byD[OF grows_rebuild_all ra] obtain evs where "trace s' = trace ?s3 @ evs"
        by blast
      with eq ra show ?thesis by simp
    qed
  qed
  from b obtain rest where "trace (snd (build_doc_id_to_index_map lb st svc docs fs s)) = trace ?s3 @ rest"
    by blast
  then have "trace (snd (build_doc_id_to_index_map lb st svc docs fs s))
             = trace s @ [Ev_get_vector_store_singleton,
                              Ev_from_defaults (Some ?dir) vs fs,
                              Ev_from_defaults None vs fs,
                              Ev_persist sc ?dir, ?ev] @ rest"
    unfolding t3 by simp
  with a show ?thesis by blast
qed

lemmas demo_defs =
  build_doc_id_to_index_map_def try_except_def load_existing_def obtain_storage_context_def
  rebuild_all_def rebuild_document_def fetch_and_read_document_def get_s3_fs_def
  get_storage_context_def cache_getitem_def cache_setitem_def cache_ttl_def cache_maxsize_def
  storage_context_key_def dict_of_def seq_def ret_def raise_def call_def Let_def url_key_def
  start_def demo_lib_def demo_from_defaults_def demo_from_documents_def demo_set_index_id_def
  demo_settings_def demo_assets_def is_ValueError_def is_FileNotFoundError_def

lemma demo_bulk_load:
  "build_doc_id_to_index_map demo_lib demo_settings demo_svc [doc_A] None (start world_A)
   = (Inr [(''A'', index_A)],
      \<lparr>cache = [(''storage_context_bucket'', context_A, 300)],
       trace = [Ev_get_vector_store_singleton, Ev_from_defaults (Some ''bucket'') 7 None,
                Ev_load_indices_from_storage context_A [''A'']],
       world = world_A\<rparr>)"
  by (simp add: demo_defs world_A_def context_A_def doc_A_def)

lemma demo_partial_rebuild:
  "filter (\<lambda>ev. chunking_event ev \<or> embedding_event ev)
     (trace (snd (build_doc_id_to_index_map demo_lib demo_settings demo_svc [doc_A, doc_B] None
                    (start world_A))))
   = [Ev_process_document ''A'', Ev_from_documents (index_nodes index_A),
      Ev_process_document ''B'',
      Ev_from_documents [\<lparr>node_text = ''text of b'', node_doc_id = ''B'',
                          extra_info = [(''db_document_id'', ''B''), (''doc_id'', ''B'')]\<rparr>]]"
  by (simp add: demo_defs world_A_def context_A_def doc_A_def doc_B_def index_A_def)

lemma bulk_load_example:
  "fst (build_doc_id_to_index_map demo_lib demo_settings demo_svc [doc_A] None (start world_A))
     = Inr [(''A'', index_A)]
   \<and> filter (\<lambda>ev. chunking_event ev \<or> embedding_event ev)
       (trace (snd (build_doc_id_to_index_map demo_lib demo_settings demo_svc [doc_A] None
                      (start world_A)))) = []"
proof -
  let ?s2 = "\<lparr>cache = [(''storage_context_bucket'', context_A, 300)],
              trace = [Ev_get_vector_store_singleton, Ev_from_defaults (Some ''bucket'') 7 None],
              world = world_A\<rparr>"
  have gvs: "get_vector_store_singleton demo_lib (world (start world_A)) = (Inr 7, world_A)"
    by (simp add: demo_lib_def start_def)
  have ctx: "obtain_storage_context demo_lib (S3_BUCKET_NAME demo_settings) 7 None
               ((start world_A)\<lparr>world := world_A,
                  trace := trace (start world_A) @ [Ev_get_vector_store_singleton]\<rparr>)
             = (Inr context_A, ?s2)"
    by (simp add: demo_defs world_A_def context_A_def)
  have load: "load_indices_from_storage demo_lib context_A (map document_id [doc_A]) demo_svc (world ?s2)
              = (Inr [index_A], world_A)"
    by (simp add: demo_lib_def context_A_def doc_A_def)
  from bulk_load_returns_existing_indices[OF gvs ctx load]
  have "build_doc_id_to_index_map demo_lib demo_settings demo_svc [doc_A] None (start world_A)
        = (Inr (dict_of (zip (map document_id [doc_A]) [index_A])),
           ?s2\<lparr>world := world_A,
               trace := trace ?s2 @ [Ev_load_indices_from_storage context_A (map document_id [doc_A])]\<rparr>)"
    by blast
  then show ?thesis by (simp add: dict_of_def doc_A_def)
qed

text \<open>When one requested id is missing, the handler rebuilds every requested document.\<close>

lemma partial_request_rebuilds_all:
  "map_of (persisted world_A) ''bucket'' = Some context_A
   \<and> map_of (index_store context_A) ''A'' = Some index_A
   \<and> filter (\<lambda>ev. chunking_event ev \<or> embedding_event ev)
       (trace (snd (build_doc_id_to_index_map demo_lib demo_settings demo_svc [doc_A, doc_B] None
                      (start world_A))))
     = [Ev_process_document ''A'', Ev_from_documents (index_nodes index_A),
        Ev_process_document ''B'',
        Ev_from_documents [\<lparr>node_text = ''text of b'', node_doc_id = ''B'',
                            extra_info = [(''db_document_id'', ''B''), (''doc_id'', ''B'')]\<rparr>]]"
  using demo_partial_rebuild by (simp add: world_A_def context_A_def)

theorem deserialization_error_rebuilds_counterexample:
  "load_indices_from_storage corrupt_lib context_A [''A''] demo_svc world_A
     = (Inl (Exn JSONDecodeError ''Expecting value: line 1 column 1 (char 0)''), world_A)
   \<and> \<not> exn_cls (Exn JSONDecodeError ''Expecting value: line 1 column 1 (char 0)'') = FileNotFoundError
   \<and> map_of (index_store context_A) ''A'' = Some index_A
   \<and> fst (build_doc_id_to_index_map corrupt_lib demo_settings demo_svc [doc_A] None (start world_A))
       = Inr [(''A'', index_A)]
   \<and> filter (\<lambda>ev. chunking_event ev \<or> embedding_event ev)
       (trace (snd (build_doc_id_to_index_map corrupt_lib demo_settings demo_svc [doc_A] None
                      (start world_A))))
     = [Ev_process_document ''A'', Ev_from_documents (index_nodes index_A)]"
  by (simp add: corrupt_lib_def demo_defs world_A_def context_A_def doc_A_def index_A_def demo_svc_def)

theorem load_failure_dispatch_on_ValueError_witness:
  "build_doc_id_to_index_map demo_lib demo_settings demo_svc [doc_B] None (start world_A)
     = rebuild_all demo_lib demo_settings demo_svc [doc_B] ''bucket'' 7 None
         \<lparr>cache = [(''storage_context_bucket'', context_A, 300)],
          trace = [Ev_get_vector_store_singleton, Ev_from_defaults (Some ''bucket'') 7 None,
                   Ev_load_indices_from_storage context_A [''B'']],
          world = world_A\<rparr>
   \<and> build_doc_id_to_index_map offline_lib demo_settings demo_svc [doc_B] None (start world_A)
     = (Inl (Exn OSError ''connection reset by peer''),
         \<lparr>cache = [(''storage_context_bucket'', context_A, 300)],
          trace = [Ev_get_vector_store_singleton, Ev_from_defaults (Some ''bucket'') 7 None,
                   Ev_load_indices_from_storage context_A [''B'']],
          world = world_A\<rparr>)"
proof -
  let ?s2 = "\<lparr>cache = [(''storage_context_bucket'', context_A, 300)],
          trace = [Ev_get_vector_store_singleton, Ev_from_defaults (Some ''bucket'') 7 None,
                   Ev_load_indices_from_storage context_A [''B'']],
          world = world_A\<rparr>"
  let ?s1 = "(start world_A)\<lparr>world := world_A,
                  trace := trace (start world_A) @ [Ev_get_vector_store_singleton]\<rparr>"
  have gvs: "get_vector_store_singleton demo_lib (world (start world_A)) = (Inr 7, world_A)"
    by (simp add: demo_lib_def start_def)
  have gvs': "get_vector_store_singleton offline_lib (world (start world_A)) = (Inr 7, world_A)"
    by (simp add: offline_lib_def demo_lib_def start_def)
  have fail: "load_existing demo_lib demo_svc [doc_B] (S3_BUCKET_NAME demo_settings) 7 None ?s1
              = (Inl (Exn ValueError ''Failed to load index with ID B''), ?s2)"
    by (simp add: demo_defs world_A_def context_A_def doc_B_def)
  have fail': "load_existing offline_lib demo_svc [doc_B] (S3_BUCKET_NAME demo_settings) 7 None ?s1
              = (Inl (Exn OSError ''connection reset by peer''), ?s2)"
    by (simp add: offline_lib_def demo_defs world_A_def context_A_def doc_B_def)
  from load_failure_dispatch_on_ValueError[OF gvs fail]
  have a: "build_doc_id_to_index_map demo_lib demo_settings demo_svc [doc_B] None (start world_A)
     = rebuild_all demo_lib demo_settings demo_svc [doc_B] ''bucket'' 7 None ?s2"
    by (simp add: is_ValueError_def demo_settings_def)
  from load_failure_dispatch_on_ValueError[OF gvs' fail']
  have b: "build_doc_id_to_index_map offline_lib demo_settings demo_svc [doc_B] None (start world_A)
     = (Inl (Exn OSError ''connection reset by peer''), ?s2)"
    by (simp add: is_ValueError_def)
  from a b show ?thesis by blast
qed

theorem storage_context_created_when_missing_witness:
  "\<exists>rest. trace (snd (build_doc_id_to_index_map demo_lib demo_settings demo_svc [doc_A] None
                        (start world_empty)))
     = [Ev_get_vector_store_singleton,
        Ev_from_defaults (Some ''bucket'') 7 None,
        Ev_from_defaults None 7 None,
        Ev_persist \<lparr>sc_vector_store = 7, docstore = [], index_store = []\<rparr> ''bucket'',
        Ev_load_indices_from_storage \<lparr>sc_vector_store = 7, docstore = [], index_store = []\<rparr> [''A'']]
       @ rest"
proof -
  let ?sc = "\<lparr>sc_vector_store = 7, docstore = [], index_store = []\<rparr>"
  have gvs: "get_vector_store_singleton demo_lib (world (start world_empty)) = (Inr 7, world_empty)"
    by (simp add: demo_lib_def start_def)
  have miss: "cache_getitem (cache (start world_empty))
                (storage_context_key (S3_BUCKET_NAME demo_settings)) (timer demo_lib world_empty) = None"
    by (simp add: start_def cache_getitem_def)
  have nf: "from_defaults demo_lib (Some (S3_BUCKET_NAME demo_settings)) 7 None world_empty
            = (Inl (Exn FileNotFoundError ''bucket''), world_empty)"
    by (simp add: demo_lib_def demo_from_defaults_def world_empty_def demo_settings_def)
  have cls: "is_FileNotFoundError (Exn FileNotFoundError ''bucket'')"
    by (simp add: is_FileNotFoundError_def)
  have new: "from_defaults demo_lib None 7 None world_empty = (Inr ?sc, world_empty)"
    by (simp add: demo_lib_def demo_from_defaults_def)
  have per: "persist demo_lib ?sc (S3_BUCKET_NAME demo_settings) None world_empty
             = (Inr (), world_empty\<lparr>persisted := [(''bucket'', ?sc)]\<rparr>)"
    by (simp add: demo_lib_def world_empty_def demo_settings_def)
  from storage_context_created_when_missing[OF gvs miss nf cls new per, where svc=demo_svc and docs="[doc_A]"]
  show ?thesis by (simp add: start_def demo_settings_def doc_A_def)
qed


text \<open>
  Claim C1. The claim is that a build for a document whose index is persisted at the
  location returns it by the bulk load, with no chunker run and no embedding call. The
  code does not do that on a second build shortly after the first. The first build for
  document B caches the storage context loaded at line 277, which holds the index of A
  only; its handler then builds the index of B into another storage context, the one of
  line 299, and persists that one: the location now holds the indices of A and B, the
  cache entry still the index of A only. A second build for B ten seconds later gets the
  cached context, fails to load B from it, and runs the chunker and the index build for B
  again. Only once the cache entry has expired, 300 seconds after the first build, does the
  bulk load find the index.
\<close>

theorem second_build_rebuilds_persisted_index:
  "map (\<lambda>p. (fst p, map fst (index_store (snd p)))) (persisted (world after_first_build))
     = [(''bucket'', [''A'', ''B''])]
   \<and> map (\<lambda>e. (fst e, map fst (index_store (fst (snd e))), snd (snd e))) (cache after_first_build)
     = [(''storage_context_bucket'', [''A''], 300)]
   \<and> filter (\<lambda>ev. chunking_event ev \<or> embedding_event ev)
       (trace (snd (build_doc_id_to_index_map demo_lib demo_settings demo_svc [doc_B] None
          (after_first_build\<lparr>trace := [], world := (world after_first_build)\<lparr>clock := 10\<rparr>\<rparr>))))
     = [Ev_process_document ''B'',
        Ev_from_documents [\<lparr>node_text = ''text of b'', node_doc_id = ''B'',
                            extra_info = [(''db_document_id'', ''B''), (''doc_id'', ''B'')]\<rparr>]]
   \<and> filter (\<lambda>ev. chunking_event ev \<or> embedding_event ev)
       (trace (snd (build_doc_id_to_index_map demo_lib demo_settings demo_svc [doc_B] None
          (after_first_build\<lparr>trace := [], world := (world after_first_build)\<lparr>clock := 300\<rparr>\<rparr>))))
     = []"
  by (simp add: after_first_build_def demo_defs world_A_def context_A_def doc_B_def index_A_def)

section \<open>The chat engine of a conversation without documents\<close>

lemma rebuild_all_empty:
  assumes "rebuild_all lb st svc [] dir vs fs s = (Inr m, s')"
  shows "m = []"
  using assms by (auto simp: rebuild_all_def seq_def call_def split: prod.splits sum.splits)

lemma load_existing_empty:
  assumes "load_existing lb svc [] dir vs fs s = (Inr m, s')"
  shows "m = []"
  using assms
  by (auto simp: load_existing_def seq_def call_def ret_def dict_of_def split: prod.splits sum.splits)

lemma build_empty:
  assumes "build_doc_id_to_index_map lb st svc [] fs s = (Inr m, s')"
  shows "m = []"
proof -
  obtain r w1 where g: "get_vector_store_singleton lb (world s) = (r, w1)"
    by (cases "get_vector_store_singleton lb (world s)")
  show ?thesis
  proof (cases r)
    case (Inl e)
    with g assms show ?thesis
      by (simp add: build_doc_id_to_index_map_def seq_def call_def Let_def)
  next
    case (Inr vs)
    let ?s1 = "s\<lparr>world := w1, trace := trace s @ [Ev_get_vector_store_singleton]\<rparr>"
    obtain r2 s2 where l: "load_existing lb svc [] (S3_BUCKET_NAME st) vs fs ?s1 = (r2, s2)"
      by (cases "load_existing lb svc [] (S3_BUCKET_NAME st) vs fs ?s1")
    from g Inr have u: "build_doc_id_to_index_map lb st svc [] fs s
         = try_except (load_existing lb svc [] (S3_BUCKET_NAME st) vs fs) is_ValueError
             (rebuild_all lb st svc [] (S3_BUCKET_NAME st) vs fs) ?s1"
      by (simp add: build_unfold)
    show ?thesis
    proof (cases r2)
      case (Inr m2)
      with l u assms have "m2 = m" by (simp add: try_except_def)
      with l Inr load_existing_empty show ?thesis by blast
    next
      case (Inl e)
      with l u assms have "rebuild_all lb st svc [] (S3_BUCKET_NAME st) vs fs s2 = (Inr m, s')"
        by (simp add: try_except_def split: if_splits)
      then show ?thesis by (rule rebuild_all_empty)
    qed
  qed
qed

lemma sublist_prepend:
  assumes "sublist v r"
  shows "sublist v (t @ r)"
proof -
  from assms obtain ps ss where "r = ps @ v @ ss" unfolding sublist_def by blast
  then have "t @ r = (t @ ps) @ v @ ss" by simp
  then show ?thesis unfolding sublist_def by blast
qed

lemma format_template_contains:
  assumes "format_template tpl kwargs = Inr r" "Field f \<in> set tpl" "map_of kwargs f = Some v"
  shows "sublist v r"
  using assms
proof (induction tpl arbitrary: r)
  case Nil
  then show ?case by simp
next
  case (Cons p ps)
  show ?case
  proof (cases p)
    case (Lit t)
    with Cons.prems(1) obtain r' where r': "format_template ps kwargs = Inr r'" "r = t @ r'"
      by (auto split: sum.splits)
    from Lit Cons.prems(2) have "Field f \<in> set ps" by simp
    from Cons.IH[OF r'(1) this Cons.prems(3)] have "sublist v r'" .
    then show ?thesis unfolding r'(2) by (rule sublist_prepend)
  next
    case (Field g)
    with Cons.prems(1) obtain w r' where r': "map_of kwargs g = Some w"
        "format_template ps kwargs = Inr r'" "r = w @ r'"
      by (auto split: option.splits sum.splits)
    show ?thesis
    proof (cases "g = f")
      case True
      with r' Cons.prems(3) have "r = v @ r'" by simp
      then show ?thesis by (simp add: sublist_def) (metis append_Nil)
    next
      case False
      with Field Cons.prems(2) have "Field f \<in> set ps" by simp
      from Cons.IH[OF r'(2) this Cons.prems(3)] have "sublist v r'" .
      then show ?thesis unfolding r'(3) by (rule sublist_prepend)
    qed
  qed
qed

lemma get_chat_engine_parts:
  assumes "get_chat_engine lb st h conv s = (Inr agent, s')"
  shows "\<exists>s3_fs s1 m s2 router_tools.
           build_doc_id_to_index_map lb st (get_tool_service_context st [h]) (documents conv) (Some s3_fs) s1
             = (Inr m, s2)
         \<and> vector_query_engine_tools lb (documents conv)
               (dict_of (map (\<lambda>doc. (document_id doc, doc)) (documents conv))) m = Inr router_tools
         \<and> map (\<lambda>t. query_engine_tools (query_engine t)) (tools agent) = [router_tools]
         \<and> format_template (CLINICAL_SYSTEM_MESSAGE lb)
               [(''doc_titles'', doc_titles_of lb (documents conv)),
                (''curr_date'', strftime lb ''%Y-%m-%d'' (utcnow lb (world s2)))]
             = Inr (system_prompt agent)"
  using assms
  apply (auto simp: get_chat_engine_def seq_def raise_def Let_def split: prod.splits sum.splits)
  apply blast
  done

text \<open>
  Claim C4. For every conversation with an empty document set, the agent that
  \<^const>\<open>get_chat_engine\<close> returns has a system prompt that contains the placeholder
  \<^verbatim>\<open>No clinical guidelines selected.\<close> (the template \<^verbatim>\<open>CLINICAL_SYSTEM_MESSAGE\<close>, a
  constant that is not in the sources, has the field \<^verbatim>\<open>doc_titles\<close>), and the router,
  the query engine of its one tool, has no tools.
\<close>

theorem empty_document_set_prompt_and_tools:
  assumes empty: "documents conv = []"
      and built: "get_chat_engine lb st h conv s = (Inr agent, s')"
      and templ: "Field ''doc_titles'' \<in> set (CLINICAL_SYSTEM_MESSAGE lb)"
  shows "sublist ''No clinical guidelines selected.'' (system_prompt agent)
       \<and> map (\<lambda>t. query_engine_tools (query_engine t)) (tools agent) = [[]]"
proof -
  from get_chat_engine_parts[OF built] empty
  obtain s3_fs s1 m s2 router_tools where
    b: "build_doc_id_to_index_map lb st (get_tool_service_context st [h]) [] (Some s3_fs) s1 = (Inr m, s2)"
    and t: "vector_query_engine_tools lb []
               (dict_of (map (\<lambda>doc. (document_id doc, doc)) [])) m = Inr router_tools"
    and ts: "map (\<lambda>t. query_engine_tools (query_engine t)) (tools agent) = [router_tools]"
    and f: "format_template (CLINICAL_SYSTEM_MESSAGE lb)
               [(''doc_titles'', doc_titles_of lb []),
                (''curr_date'', strftime lb ''%Y-%m-%d'' (utcnow lb (world s2)))]
             = Inr (system_prompt agent)"
    by auto
  from build_empty[OF b] have "m = []" .
  with t have "router_tools = []" by simp
  with ts have tools: "map (\<lambda>t. query_engine_tools (query_engine t)) (tools agent) = [[]]" by simp
  have "sublist (doc_titles_of lb []) (system_prompt agent)"
    by (rule format_template_contains[OF f templ]) simp
  then have "sublist ''No clinical guidelines selected.'' (system_prompt agent)"
    by (simp add: doc_titles_of_def)
  with tools show ?thesis by blast
qed

lemma demo_empty_engine:
  "system_prompt (projr (fst (get_chat_engine demo_lib demo_settings 1
       \<lparr>documents = [], messages = []\<rparr> (start world_A))))
   = ''Guidelines: No clinical guidelines selected. Date: %Y-%m-%d''"
  by (simp add: get_chat_engine_def seq_def raise_def ret_def Let_def get_s3_fs_def demo_settings_def
      build_doc_id_to_index_map_def try_except_def load_existing_def obtain_storage_context_def
      get_storage_context_def cache_getitem_def start_def call_def demo_lib_def
      demo_from_defaults_def world_A_def cache_setitem_def cache_ttl_def cache_maxsize_def
      storage_context_key_def dict_of_def doc_titles_of_def)

theorem empty_document_set_prompt_and_tools_witness:
  "\<exists>agent s'. get_chat_engine demo_lib demo_settings 1 \<lparr>documents = [], messages = []\<rparr> (start world_A)
        = (Inr agent, s')
     \<and> sublist ''No clinical guidelines selected.'' (system_prompt agent)
     \<and> map (\<lambda>t. query_engine_tools (query_engine t)) (tools agent) = [[]]"
proof -
  from demo_empty_engine_built obtain agent s'
    where b: "get_chat_engine demo_lib demo_settings 1 \<lparr>documents = [], messages = []\<rparr> (start world_A)
                = (Inr agent, s')"
    by blast
  have e: "documents \<lparr>documents = [], messages = []\<rparr> = []" by simp
  have t: "Field ''doc_titles'' \<in> set (CLINICAL_SYSTEM_MESSAGE demo_lib)"
    by (simp add: demo_lib_def)
  from empty_document_set_prompt_and_tools[OF e b t] b
  have "get_chat_engine demo_lib demo_settings 1 \<lparr>documents = [], messages = []\<rparr> (start world_A)
        = (Inr agent, s')
     \<and> sublist ''No clinical guidelines selected.'' (system_prompt agent)
     \<and> map (\<lambda>t. query_engine_tools (query_engine t)) (tools agent) = [[]]"
    by simp
  then show ?thesis by (intro exI)
qed

end
